theory Spec2Isabelle
  imports Main
begin

section \<open>Data model\<close>

text \<open>
  The TypeScript interfaces of the types module, one record each. Field names are
  the source's, except where two interfaces share a name or the name is a HOL constant:
  \<open>User.id\<close> is \<open>uid\<close>, \<open>User.name\<close> is \<open>uname\<close>, \<open>PointAssignment.id\<close> is \<open>aid\<close>,
  \<open>PointAssignment.month\<close> is \<open>amonth\<close>, \<open>OnboardingStep.title\<close> and \<open>.description\<close>
  are \<open>title_os\<close> and \<open>description_os\<close>, \<open>EmailNotificationConfig.enabled\<close> is
  \<open>enabled_en\<close>. A JavaScript \<open>number\<close> that holds a count of points or a timestamp is
  an \<open>int\<close> (the point buttons give whole numbers); an optional field is an \<open>option\<close>.
\<close>

datatype Role = employee | people | superadmin

record User =
  uid :: string
  uname :: string
  email :: string
  role :: Role
  department :: string

record MonthlyAllocation =
  userId :: string
  month :: string
  pointsRemaining :: int
  pointsReceived :: int

record PointAssignment =
  aid :: string
  fromUserId :: string
  toUserId :: string
  points :: int
  category :: string
  message :: "string option"
  timestamp :: int
  amonth :: string

record CategoryConfig =
  name :: string
  enabled :: bool

record LoginContent =
  title :: string
  subtitle :: string
  description :: string
  helpEmail :: string

record OnboardingStep =
  title_os :: string
  description_os :: string
  details :: string

datatype SmtpProvider = gmail | outlook | sendgrid | custom

record EmailNotificationConfig =
  enabled_en :: bool
  notifyEmployee :: bool
  notifyPeople :: bool
  peopleEmails :: "string list"
  smtpProvider :: SmtpProvider
  smtpHost :: string
  smtpPort :: int
  smtpUser :: string
  smtpPassword :: string
  fromEmail :: string
  fromName :: string

text \<open>
  \<open>SystemConfig\<close> is what \<open>getSystemConfig\<close> returns. The object it returns is the
  parsed JSON record itself, so members outside the interface survive; they are kept in
  \<open>otherFields\<close> as pairs of key and JSON text.
\<close>

record SystemConfig =
  categories :: "CategoryConfig list"
  loginContent :: LoginContent
  onboardingSteps :: "OnboardingStep list"
  emailNotifications :: EmailNotificationConfig
  otherFields :: "(string \<times> string) list"

text \<open>
  \<open>StoredConfig\<close> is the JSON record under the key \<open>SYSTEM_CONFIG\<close>. A record saved
  by an older version may lack \<open>loginContent\<close>, \<open>onboardingSteps\<close> or
  \<open>emailNotifications\<close>: a member that is absent is \<open>None\<close>. A member that is present
  holds a value of its interface type, an object or an array, which JavaScript treats as
  truthy (the empty array included); so the source's test \<open>!config.f\<close> is the test
  \<open>f = None\<close>.
\<close>

record StoredConfig =
  sc_categories :: "CategoryConfig list"
  sc_loginContent :: "LoginContent option"
  sc_onboardingSteps :: "OnboardingStep list option"
  sc_emailNotifications :: "EmailNotificationConfig option"
  sc_otherFields :: "(string \<times> string) list"

text \<open>
  The browser's key-value store, one field per key of \<open>STORAGE_KEYS\<close>. The getters
  of a collection return the empty array when the key is absent, so a collection is a
  list and the absent key is the empty list.
\<close>

record Store =
  CURRENT_USER :: "User option"
  USERS :: "User list"
  ALLOCATIONS :: "MonthlyAllocation list"
  ASSIGNMENTS :: "PointAssignment list"
  SYSTEM_CONFIG :: "StoredConfig option"

definition emptyStore :: Store where
  "emptyStore = \<lparr>CURRENT_USER = None, USERS = [], ALLOCATIONS = [], ASSIGNMENTS = [],
     SYSTEM_CONFIG = None\<rparr>"

section \<open>The persistence helper (storage)\<close>

text \<open>
  Every function that reads or writes \<open>localStorage\<close> takes the store and, when it
  writes, returns the new one. \<open>getCurrentMonth()\<close> reads the clock: a function that
  calls it takes the month string as its first argument.
\<close>

definition getUsers :: "Store \<Rightarrow> User list" where
  "getUsers s = USERS s"

definition setUsers :: "User list \<Rightarrow> Store \<Rightarrow> Store" where
  "setUsers us s = s\<lparr>USERS := us\<rparr>"

definition setCurrentUser :: "User option \<Rightarrow> Store \<Rightarrow> Store" where
  "setCurrentUser u s = s\<lparr>CURRENT_USER := u\<rparr>"

definition getAllocations :: "Store \<Rightarrow> MonthlyAllocation list" where
  "getAllocations s = ALLOCATIONS s"

definition setAllocations :: "MonthlyAllocation list \<Rightarrow> Store \<Rightarrow> Store" where
  "setAllocations al s = s\<lparr>ALLOCATIONS := al\<rparr>"

definition getUserAllocation :: "string \<Rightarrow> string \<Rightarrow> Store \<Rightarrow> MonthlyAllocation option" where
  "getUserAllocation u m s = find (\<lambda>a. userId a = u \<and> month a = m) (getAllocations s)"

text \<open>\<open>Array.prototype.findIndex\<close>: the first index whose element passes, or \<open>-1\<close>.\<close>

fun findIndex :: "('a \<Rightarrow> bool) \<Rightarrow> 'a list \<Rightarrow> int" where
  "findIndex P [] = - 1"
| "findIndex P (x # xs) =
     (if P x then 0 else (let i = findIndex P xs in if i < 0 then - 1 else i + 1))"

definition updateAllocation :: "MonthlyAllocation \<Rightarrow> Store \<Rightarrow> Store" where
  "updateAllocation allocation s =
     (let allocations = getAllocations s;
          index = findIndex (\<lambda>a. userId a = userId allocation \<and> month a = month allocation)
                    allocations
      in setAllocations
           (if index \<ge> 0 then allocations[nat index := allocation]
            else allocations @ [allocation]) s)"

definition getAssignments :: "Store \<Rightarrow> PointAssignment list" where
  "getAssignments s = ASSIGNMENTS s"

definition setAssignments :: "PointAssignment list \<Rightarrow> Store \<Rightarrow> Store" where
  "setAssignments asg s = s\<lparr>ASSIGNMENTS := asg\<rparr>"

definition addAssignment :: "PointAssignment \<Rightarrow> Store \<Rightarrow> Store" where
  "addAssignment assignment s = setAssignments (getAssignments s @ [assignment]) s"

definition ensureMonthlyAllocation :: "string \<Rightarrow> string \<Rightarrow> Store \<Rightarrow> MonthlyAllocation \<times> Store" where
  "ensureMonthlyAllocation m u s =
     (case getUserAllocation u m s of
        Some allocation \<Rightarrow> (allocation, s)
      | None \<Rightarrow>
          (let allocation = \<lparr>userId = u, month = m, pointsRemaining = 10, pointsReceived = 0\<rparr>
           in (allocation, updateAllocation allocation s)))"

section \<open>Strings\<close>

text \<open>
  A \<open>string\<close> is a list of bytes. The source's literals outside ASCII are written in
  UTF-8 through the constants below; only equality of strings is used on them.
\<close>

definition a_acute :: string where "a_acute = [CHR 0xC3, CHR 0xA1]"

definition e_acute :: string where "e_acute = [CHR 0xC3, CHR 0xA9]"

definition i_acute :: string where "i_acute = [CHR 0xC3, CHR 0xAD]"

definition o_acute :: string where "o_acute = [CHR 0xC3, CHR 0xB3]"

definition n_tilde :: string where "n_tilde = [CHR 0xC3, CHR 0xB1]"

definition inv_excl :: string where "inv_excl = [CHR 0xC2, CHR 0xA1]"

definition dquote :: string where "dquote = [CHR 0x22]"

text \<open>
  \<open>String.prototype.toLowerCase\<close> on the ASCII letters; a byte outside \<open>A\<close>..\<open>Z\<close> is
  kept (the case mapping of letters beyond ASCII is not modelled).
\<close>

definition toLowerChar :: "char \<Rightarrow> char" where
  "toLowerChar c =
     (case map_of (zip ''ABCDEFGHIJKLMNOPQRSTUVWXYZ'' ''abcdefghijklmnopqrstuvwxyz'') c of
        Some l \<Rightarrow> l
      | None \<Rightarrow> c)"

definition toLowerCase :: "string \<Rightarrow> string" where
  "toLowerCase s = map toLowerChar s"

text \<open>\<open>s.endsWith(t)\<close>, and \<open>s.includes(t)\<close> as \<open>includes_str s t\<close>.\<close>

definition endsWith :: "string \<Rightarrow> string \<Rightarrow> bool" where
  "endsWith s t = (length t \<le> length s \<and> drop (length s - length t) s = t)"

fun includes_str :: "string \<Rightarrow> string \<Rightarrow> bool" where
  "includes_str [] t = (t = [])"
| "includes_str (c # cs) t = (take (length t) (c # cs) = t \<or> includes_str cs t)"

text \<open>\<open>String.prototype.trim\<close> for the ASCII white space and line terminators.\<close>

definition isWhitespace :: "char \<Rightarrow> bool" where
  "isWhitespace c = (c \<in> set [CHR 0x20, CHR 0x09, CHR 0x0A, CHR 0x0B, CHR 0x0C, CHR 0x0D])"

definition trim :: "string \<Rightarrow> string" where
  "trim s = rev (dropWhile isWhitespace (rev (dropWhile isWhitespace s)))"

text \<open>A whole number as a template literal prints it.\<close>

fun natToString :: "nat \<Rightarrow> string" where
  "natToString n =
     (if n < 10 then [''0123456789'' ! n]
      else natToString (n div 10) @ [''0123456789'' ! (n mod 10)])"

definition numToString :: "int \<Rightarrow> string" where
  "numToString i = (if i < 0 then ''-'' @ natToString (nat (- i)) else natToString (nat i))"

section \<open>System configuration\<close>

definition getDefaultConfig :: SystemConfig where
  "getDefaultConfig = \<lparr>
     categories = [
       \<lparr>name = ''Trabajo en equipo'', enabled = True\<rparr>,
       \<lparr>name = ''Innovaci'' @ o_acute @ ''n'', enabled = True\<rparr>,
       \<lparr>name = ''Liderazgo'', enabled = True\<rparr>,
       \<lparr>name = ''Colaboraci'' @ o_acute @ ''n'', enabled = True\<rparr>,
       \<lparr>name = ''Compromiso'', enabled = True\<rparr>,
       \<lparr>name = ''Excelencia'', enabled = True\<rparr>,
       \<lparr>name = ''Actitud positiva'', enabled = True\<rparr>,
       \<lparr>name = ''Comunicaci'' @ o_acute @ ''n efectiva'', enabled = True\<rparr>
     ],
     loginContent = \<lparr>
       title = ''PromiPoints'',
       subtitle = ''Grupo Prominente'',
       description = ''Sistema de reconocimiento de Grupo Prominente'',
       helpEmail = ''people@grupoprominente.com''\<rparr>,
     onboardingSteps = [
       \<lparr>title_os = inv_excl @ ''Bienvenido a PromiPoints!'',
        description_os = ''Sistema de reconocimiento entre colaboradores de Grupo Prominente'',
        details = ''Reconoce el trabajo excepcional de tus compa'' @ n_tilde @ ''eros y fortalece la cultura organizacional.''\<rparr>,
       \<lparr>title_os = ''10 Puntos Mensuales'',
        description_os = ''Cada mes recibes 10 PromiPoints para compartir'',
        details = ''Los puntos no utilizados expiran al final del mes, as'' @ i_acute @ '' que '' @ inv_excl @ ''no olvides reconocer a tus compa'' @ n_tilde @ ''eros!''\<rparr>,
       \<lparr>title_os = ''Asignaci'' @ o_acute @ ''n An'' @ o_acute @ ''nima'',
        description_os = ''Reconoce valores organizacionales de forma privada'',
        details = ''Tus compa'' @ n_tilde @ ''eros ver'' @ a_acute @ ''n los puntos recibidos y la categor'' @ i_acute @ ''a, pero no sabr'' @ a_acute @ ''n qui'' @ e_acute @ ''n los envi'' @ o_acute @ ''.''\<rparr>,
       \<lparr>title_os = inv_excl @ ''Est'' @ a_acute @ ''s listo!'',
        description_os = ''Comienza a reconocer el gran trabajo de tu equipo'',
        details = ''Haz clic en '' @ dquote @ ''Asignar PromiPoints'' @ dquote @ '' para dar tu primer reconocimiento.''\<rparr>
     ],
     emailNotifications = \<lparr>
       enabled_en = False,
       notifyEmployee = True,
       notifyPeople = False,
       peopleEmails = [],
       smtpProvider = gmail,
       smtpHost = ''smtp.gmail.com'',
       smtpPort = 587,
       smtpUser = [],
       smtpPassword = [],
       fromEmail = ''noreply@grupoprominente.com'',
       fromName = ''PromiPoints - Grupo Prominente''\<rparr>,
     otherFields = []\<rparr>"

text \<open>
  When the key is absent, \<open>config\<close> is the default object, every member present.
  Each of the three tests \<open>if (!config.f) config.f = defaultConfig.f\<close> is one
  \<open>case\<close> below; \<open>categories\<close> and the members outside the interface are never
  written.
\<close>

definition asStored :: "SystemConfig \<Rightarrow> StoredConfig" where
  "asStored c = \<lparr>sc_categories = categories c,
     sc_loginContent = Some (loginContent c),
     sc_onboardingSteps = Some (onboardingSteps c),
     sc_emailNotifications = Some (emailNotifications c),
     sc_otherFields = otherFields c\<rparr>"

definition getSystemConfig :: "Store \<Rightarrow> SystemConfig" where
  "getSystemConfig s =
     (let config = (case SYSTEM_CONFIG s of Some data \<Rightarrow> data | None \<Rightarrow> asStored getDefaultConfig);
          defaultConfig = getDefaultConfig
      in \<lparr>categories = sc_categories config,
          loginContent =
            (case sc_loginContent config of None \<Rightarrow> loginContent defaultConfig | Some l \<Rightarrow> l),
          onboardingSteps =
            (case sc_onboardingSteps config of None \<Rightarrow> onboardingSteps defaultConfig | Some st \<Rightarrow> st),
          emailNotifications =
            (case sc_emailNotifications config of
               None \<Rightarrow> emailNotifications defaultConfig | Some e \<Rightarrow> e),
          otherFields = sc_otherFields config\<rparr>)"

definition setSystemConfig :: "SystemConfig \<Rightarrow> Store \<Rightarrow> Store" where
  "setSystemConfig c s = s\<lparr>SYSTEM_CONFIG := Some (asStored c)\<rparr>"

section \<open>Login\<close>

text \<open>
  \<open>handleLogin\<close> of the login screen, with the \<open>onLogin\<close> callback it is given by the
  application (\<open>storage.setCurrentUser(user)\<close>). The result is the user logged in, or the
  inline error message. \<open>loginAs\<close> is the pair of statements
  \<open>storage.ensureMonthlyAllocation(user.id); onLogin(user)\<close>, which the source writes
  twice; the source's three early returns are the branches on \<open>user\<close>.
\<close>

datatype LoginResult = LoggedIn User | LoginError string

definition onLogin :: "User \<Rightarrow> Store \<Rightarrow> Store" where
  "onLogin user s = setCurrentUser (Some user) s"

definition loginAs :: "string \<Rightarrow> User \<Rightarrow> Store \<Rightarrow> LoginResult \<times> Store" where
  "loginAs m user s = (LoggedIn user, onLogin user (snd (ensureMonthlyAllocation m (uid user) s)))"

definition handleLogin :: "string \<Rightarrow> string \<Rightarrow> Store \<Rightarrow> LoginResult \<times> Store" where
  "handleLogin m email_in s =
     (let users = getUsers s;
          user = find (\<lambda>u. toLowerCase (email u) = toLowerCase email_in) users
      in case user of
           Some u \<Rightarrow>
             if role u = superadmin then loginAs m u s
             else if \<not> endsWith email_in ''@grupoprominente.com''
             then (LoginError ''Debes usar tu correo corporativo (@grupoprominente.com)'', s)
             else loginAs m u s
         | None \<Rightarrow>
             if \<not> endsWith email_in ''@grupoprominente.com''
             then (LoginError ''Debes usar tu correo corporativo (@grupoprominente.com)'', s)
             else (LoginError (''Usuario no encontrado en la n'' @ o_acute @ ''mina. Contacta a People & Culture para obtener acceso.''), s))"

section \<open>The assignment dialog (AssignPoints)\<close>

text \<open>
  The \<open>useState\<close> variables of the component. \<open>users\<close>, \<open>points\<close>, \<open>category\<close>
  and \<open>message\<close> carry the suffix \<open>_st\<close>, their names being fields of the records above.
\<close>

record Dialog =
  users_st :: "User list"
  searchTerm :: string
  selectedUser :: "User option"
  points_st :: int
  category_st :: string
  message_st :: string
  availablePoints :: int
  showConfirmation :: bool
  isSubmitting :: bool
  errors :: "(string \<times> string) list"

definition initialDialog :: Dialog where
  "initialDialog = \<lparr>users_st = [], searchTerm = [], selectedUser = None, points_st = 1,
     category_st = [], message_st = [], availablePoints = 0, showConfirmation = False,
     isSubmitting = False, errors = []\<rparr>"

text \<open>
  The effect run on mount: the other users, and \<open>allocation?.pointsRemaining || 0\<close>
  (a remaining balance of \<open>0\<close> gives \<open>0\<close> on either side of \<open>||\<close>).
\<close>

definition mountDialog :: "User \<Rightarrow> string \<Rightarrow> Store \<Rightarrow> Dialog" where
  "mountDialog currentUser m s =
     initialDialog\<lparr>
       users_st := filter (\<lambda>u. uid u \<noteq> uid currentUser) (getUsers s),
       availablePoints :=
         (case getUserAllocation (uid currentUser) m s of
            None \<Rightarrow> 0 | Some allocation \<Rightarrow> pointsRemaining allocation)\<rparr>"

definition enabledCategories :: "Store \<Rightarrow> CategoryConfig list" where
  "enabledCategories s = filter enabled (categories (getSystemConfig s))"

definition filteredUsers :: "Dialog \<Rightarrow> User list" where
  "filteredUsers d =
     filter (\<lambda>user.
       includes_str (toLowerCase (uname user)) (toLowerCase (searchTerm d)) \<or>
       includes_str (toLowerCase (email user)) (toLowerCase (searchTerm d)) \<or>
       includes_str (toLowerCase (department user)) (toLowerCase (searchTerm d)))
     (users_st d)"

text \<open>\<open>validateForm\<close> returns the new \<open>errors\<close> object and whether it has no key.\<close>

definition validateForm :: "Dialog \<Rightarrow> (string \<times> string) list \<times> bool" where
  "validateForm d =
     (let newErrors =
        (if selectedUser d = None then [(''user'', ''Debes seleccionar un colaborador'')] else []) @
        (if category_st d = [] then [(''category'', ''Debes seleccionar una categor'' @ i_acute @ ''a'')]
         else []) @
        (if points_st d > availablePoints d
         then [(''points'',
                ''Solo tienes '' @ numToString (availablePoints d) @ '' puntos disponibles'')]
         else [])
      in (newErrors, newErrors = []))"

definition handlePreview :: "Dialog \<Rightarrow> Dialog" where
  "handlePreview d =
     (case validateForm d of
        (newErrors, ok) \<Rightarrow>
          (if ok then d\<lparr>errors := newErrors, showConfirmation := True\<rparr>
           else d\<lparr>errors := newErrors\<rparr>))"

definition handleBack :: "Dialog \<Rightarrow> Dialog" where
  "handleBack d = d\<lparr>showConfirmation := False\<rparr>"

text \<open>
  \<open>handleSubmit\<close>. The generated id and \<open>Date.now()\<close> are the arguments \<open>newId\<close> and
  \<open>now\<close>. The three writes follow the source's order, each lookup reading the store the
  write before it left.
\<close>

definition handleSubmit ::
    "User \<Rightarrow> string \<Rightarrow> string \<Rightarrow> int \<Rightarrow> Dialog \<Rightarrow> Store \<Rightarrow> Dialog \<times> Store" where
  "handleSubmit currentUser m newId now d s =
     (case selectedUser d of
        None \<Rightarrow> (d, s)
      | Some su \<Rightarrow>
          if category_st d = [] then (d, s)
          else
            (let assignment = \<lparr>
                   aid = newId,
                   fromUserId = uid currentUser,
                   toUserId = uid su,
                   points = points_st d,
                   category = category_st d,
                   message = (if trim (message_st d) = [] then None else Some (trim (message_st d))),
                   timestamp = now,
                   amonth = m\<rparr>;
                 s1 = addAssignment assignment s;
                 s2 = (case getUserAllocation (uid currentUser) m s1 of
                         None \<Rightarrow> s1
                       | Some senderAllocation \<Rightarrow>
                           updateAllocation
                             (senderAllocation\<lparr>pointsRemaining :=
                                pointsRemaining senderAllocation - points_st d\<rparr>) s1);
                 s3 = (case getUserAllocation (uid su) m s2 of
                         None \<Rightarrow> s2
                       | Some receiverAllocation \<Rightarrow>
                           updateAllocation
                             (receiverAllocation\<lparr>pointsReceived :=
                                pointsReceived receiverAllocation + points_st d\<rparr>) s2)
             in (d\<lparr>isSubmitting := True\<rparr>, s3)))"

text \<open>
  What the rendered dialog lets the user do. The form view (no confirmation shown) offers
  the search box and the list of \<open>filteredUsers\<close> while no user is selected; once one is,
  it offers the clear button, the four point buttons (each disabled above
  \<open>availablePoints\<close>), the chooser over \<open>enabledCategories\<close>, the message box (its
  \<open>maxLength\<close> is not modelled) and the review button (disabled without a category, with
  \<open>availablePoints = 0\<close> or while submitting). The confirmation view offers the back and
  the confirm button, both disabled while submitting. An event the view does not offer
  changes nothing.
\<close>

datatype Event =
    SetSearchTerm string
  | SelectUser User
  | ClearUser
  | SetPoints int
  | SetCategory string
  | SetMessage string
  | Preview
  | Back
  | Submit string int

fun step :: "User \<Rightarrow> string \<Rightarrow> Event \<Rightarrow> Dialog \<times> Store \<Rightarrow> Dialog \<times> Store" where
  "step cu m (SetSearchTerm t) (d, s) =
     (if \<not> showConfirmation d \<and> selectedUser d = None
      then (d\<lparr>searchTerm := t, errors := []\<rparr>, s) else (d, s))"
| "step cu m (SelectUser user) (d, s) =
     (if \<not> showConfirmation d \<and> selectedUser d = None \<and> user \<in> set (filteredUsers d)
      then (d\<lparr>selectedUser := Some user, errors := []\<rparr>, s) else (d, s))"
| "step cu m ClearUser (d, s) =
     (if \<not> showConfirmation d \<and> selectedUser d \<noteq> None
      then (d\<lparr>selectedUser := None, searchTerm := []\<rparr>, s) else (d, s))"
| "step cu m (SetPoints v) (d, s) =
     (if \<not> showConfirmation d \<and> selectedUser d \<noteq> None \<and> v \<in> set [1, 2, 3, 5] \<and>
         \<not> v > availablePoints d
      then (d\<lparr>points_st := v, errors := []\<rparr>, s) else (d, s))"
| "step cu m (SetCategory c) (d, s) =
     (if \<not> showConfirmation d \<and> selectedUser d \<noteq> None \<and>
         c \<in> set (map name (enabledCategories s))
      then (d\<lparr>category_st := c, errors := []\<rparr>, s) else (d, s))"
| "step cu m (SetMessage t) (d, s) =
     (if \<not> showConfirmation d \<and> selectedUser d \<noteq> None
      then (d\<lparr>message_st := t\<rparr>, s) else (d, s))"
| "step cu m Preview (d, s) =
     (if \<not> showConfirmation d \<and> selectedUser d \<noteq> None \<and>
         \<not> (category_st d = [] \<or> availablePoints d = 0 \<or> isSubmitting d)
      then (handlePreview d, s) else (d, s))"
| "step cu m Back (d, s) =
     (if showConfirmation d \<and> \<not> isSubmitting d then (handleBack d, s) else (d, s))"
| "step cu m (Submit newId now) (d, s) =
     (if showConfirmation d \<and> \<not> isSubmitting d then handleSubmit cu m newId now d s
      else (d, s))"

definition runDialog :: "User \<Rightarrow> string \<Rightarrow> Event list \<Rightarrow> Store \<Rightarrow> Dialog \<times> Store" where
  "runDialog cu m evs s = foldl (\<lambda>st ev. step cu m ev st) (mountDialog cu m s, s) evs"

section \<open>Admin point reset (AdminSettings)\<close>

datatype ResetType = partial | total

text \<open>
  \<open>handleResetPoints\<close> reads both collections once. The loop looks each selected user
  up in that array of parsed objects, assigns to the object it found (so a later round
  sees the assignment) and writes the object to the store with \<open>updateAllocation\<close>. The
  loop state is the local array and the store.
\<close>

definition resetUser ::
    "string \<Rightarrow> ResetType \<Rightarrow> MonthlyAllocation list \<times> Store \<Rightarrow> string \<Rightarrow>
     MonthlyAllocation list \<times> Store" where
  "resetUser m resetType st u =
     (case st of
        (allocations, s) \<Rightarrow>
          (case find (\<lambda>a. userId a = u \<and> month a = m) allocations of
             None \<Rightarrow> (allocations, s)
           | Some found \<Rightarrow>
               (let allocation =
                      (if resetType = total
                       then found\<lparr>pointsRemaining := 10, pointsReceived := 0\<rparr>
                       else found\<lparr>pointsReceived := 0\<rparr>)
                in (allocations
                      [nat (findIndex (\<lambda>a. userId a = u \<and> month a = m) allocations) := allocation],
                    updateAllocation allocation s))))"

definition handleResetPoints :: "string \<Rightarrow> ResetType \<Rightarrow> string list \<Rightarrow> Store \<Rightarrow> Store" where
  "handleResetPoints m resetType selectedUsers s =
     (if selectedUsers = [] then s
      else
        (let allocations = getAllocations s;
             assignments = getAssignments s;
             s1 = snd (foldl (resetUser m resetType) (allocations, s) selectedUsers)
         in if resetType = total
            then setAssignments
                   (filter (\<lambda>a. amonth a \<noteq> m \<or>
                                 (toUserId a \<notin> set selectedUsers \<and>
                                  fromUserId a \<notin> set selectedUsers))
                      assignments) s1
            else s1))"

section \<open>The report (PeopleDashboard)\<close>

text \<open>
  The rows \<open>loadData\<close> computes. \<open>pointsReceived\<close> of a row is \<open>pointsReceived_r\<close>. The
  category breakdown is an object filled by \<open>reduce\<close>: a list of pairs of key and sum, a
  new key going to the end (the place JavaScript gives to keys that read as integers, and
  the keys every object inherits, are not modelled).
\<close>

record ReportRow =
  userId_r :: string
  name_r :: string
  email_r :: string
  department_r :: string
  pointsReceived_r :: int
  recognitionCount :: nat
  pointsGiven :: int
  categoryBreakdown :: "(string \<times> int) list"

fun setKey :: "string \<Rightarrow> int \<Rightarrow> (string \<times> int) list \<Rightarrow> (string \<times> int) list" where
  "setKey k v [] = [(k, v)]"
| "setKey k v (p # ps) = (if fst p = k then (k, v) # ps else p # setKey k v ps)"

definition addCategory :: "(string \<times> int) list \<Rightarrow> PointAssignment \<Rightarrow> (string \<times> int) list" where
  "addCategory acc a =
     setKey (category a)
       ((case map_of acc (category a) of None \<Rightarrow> 0 | Some v \<Rightarrow> v) + points a) acc"

definition reportRow :: "string \<Rightarrow> PointAssignment list \<Rightarrow> Store \<Rightarrow> User \<Rightarrow> ReportRow" where
  "reportRow m currentMonthAssignments s u =
     (let received = filter (\<lambda>a. toUserId a = uid u) currentMonthAssignments;
          totalPoints = foldl (\<lambda>sum a. sum + points a) 0 received;
          allocation = getUserAllocation (uid u) m s;
          breakdown = foldl addCategory [] received
      in \<lparr>userId_r = uid u,
          name_r = uname u,
          email_r = email u,
          department_r = department u,
          pointsReceived_r = totalPoints,
          recognitionCount = length received,
          pointsGiven = (case allocation of
                           Some a \<Rightarrow> 10 - pointsRemaining a | None \<Rightarrow> 0),
          categoryBreakdown = breakdown\<rparr>)"

text \<open>
  \<open>loadData\<close> sets four state variables: the users, the month's assignments, the report
  and the category totals.
\<close>

definition loadData ::
    "string \<Rightarrow> Store \<Rightarrow>
     User list \<times> PointAssignment list \<times> ReportRow list \<times> (string \<times> int) list" where
  "loadData m s =
     (let allUsers = getUsers s;
          allAssignments = getAssignments s;
          currentMonthAssignments = filter (\<lambda>a. amonth a = m) allAssignments;
          report = map (reportRow m currentMonthAssignments s) allUsers;
          categoryTotals = foldl addCategory [] currentMonthAssignments
      in (allUsers, currentMonthAssignments, report, categoryTotals))"

definition report :: "string \<Rightarrow> Store \<Rightarrow> ReportRow list" where
  "report m s = fst (snd (snd (loadData m s)))"

section \<open>Seeding (initializeDemoData)\<close>

definition demoUsers :: "User list" where
  "demoUsers = [
     \<lparr>uid = ''admin'', uname = ''Admin Sistema'', email = ''admin@sistema.local'', role = superadmin,
      department = ''Administraci'' @ o_acute @ ''n''\<rparr>,
     \<lparr>uid = ''1'', uname = ''Mar'' @ i_acute @ ''a Garc'' @ i_acute @ ''a'', email = ''maria.garcia@grupoprominente.com'', role = employee,
      department = ''Desarrollo''\<rparr>,
     \<lparr>uid = ''2'', uname = ''Juan P'' @ e_acute @ ''rez'', email = ''juan.perez@grupoprominente.com'', role = employee,
      department = ''Marketing''\<rparr>,
     \<lparr>uid = ''3'', uname = ''Ana Rodr'' @ i_acute @ ''guez'', email = ''ana.rodriguez@grupoprominente.com'', role = people,
      department = ''People & Culture''\<rparr>,
     \<lparr>uid = ''4'', uname = ''Carlos L'' @ o_acute @ ''pez'', email = ''carlos.lopez@grupoprominente.com'', role = employee,
      department = ''Ventas''\<rparr>,
     \<lparr>uid = ''5'', uname = ''Laura Mart'' @ i_acute @ ''nez'', email = ''laura.martinez@grupoprominente.com'', role = employee,
      department = ''Desarrollo''\<rparr>,
     \<lparr>uid = ''6'', uname = ''Diego S'' @ a_acute @ ''nchez'', email = ''diego.sanchez@grupoprominente.com'', role = employee,
      department = ''Operaciones''\<rparr>,
     \<lparr>uid = ''7'', uname = ''Sofia Torres'', email = ''sofia.torres@grupoprominente.com'', role = employee,
      department = ''Marketing''\<rparr>,
     \<lparr>uid = ''8'', uname = ''Roberto Flores'', email = ''roberto.flores@grupoprominente.com'', role = employee,
      department = ''Ventas''\<rparr>
   ]"

definition demoAssignments :: "string \<Rightarrow> int \<Rightarrow> PointAssignment list" where
  "demoAssignments m now = [
     \<lparr>aid = ''1'', fromUserId = ''2'', toUserId = ''1'', points = 3,
      category = ''Trabajo en equipo'',
      message = Some (inv_excl @ ''Excelente colaboraci'' @ o_acute @ ''n en el proyecto!''),
      timestamp = now - 86400000 * 2, amonth = m\<rparr>,
     \<lparr>aid = ''2'', fromUserId = ''4'', toUserId = ''1'', points = 2,
      category = ''Innovaci'' @ o_acute @ ''n'',
      message = Some (''Gran idea para mejorar el proceso''),
      timestamp = now - 86400000 * 5, amonth = m\<rparr>,
     \<lparr>aid = ''3'', fromUserId = ''5'', toUserId = ''2'', points = 4,
      category = ''Liderazgo'',
      message = None,
      timestamp = now - 86400000 * 3, amonth = m\<rparr>,
     \<lparr>aid = ''4'', fromUserId = ''1'', toUserId = ''4'', points = 2,
      category = ''Colaboraci'' @ o_acute @ ''n'',
      message = Some (''Siempre dispuesto a ayudar''),
      timestamp = now - 86400000, amonth = m\<rparr>
   ]"

definition applyDemoAssignment :: "string \<Rightarrow> Store \<Rightarrow> PointAssignment \<Rightarrow> Store" where
  "applyDemoAssignment m s assignment =
     (let s1 = (case getUserAllocation (fromUserId assignment) m s of
                  None \<Rightarrow> s
                | Some fromAllocation \<Rightarrow>
                    updateAllocation
                      (fromAllocation\<lparr>pointsRemaining :=
                         pointsRemaining fromAllocation - points assignment\<rparr>) s)
      in (case getUserAllocation (toUserId assignment) m s1 of
            None \<Rightarrow> s1
          | Some toAllocation \<Rightarrow>
              updateAllocation
                (toAllocation\<lparr>pointsReceived :=
                   pointsReceived toAllocation + points assignment\<rparr>) s1))"

definition initializeDemoData :: "string \<Rightarrow> int \<Rightarrow> Store \<Rightarrow> Store" where
  "initializeDemoData m now s =
     (if getUsers s = []
      then
        (let s1 = setUsers demoUsers s;
             s2 = foldl (\<lambda>st user. snd (ensureMonthlyAllocation m (uid user) st)) s1 demoUsers;
             s3 = setAssignments (demoAssignments m now) s2
         in foldl (applyDemoAssignment m) s3 (demoAssignments m now))
      else s)"

section \<open>Ledger invariants and reachable states\<close>



definition nonNegative :: "Store \<Rightarrow> bool" where
  "nonNegative s = list_all (\<lambda>a. 0 \<le> pointsRemaining a) (getAllocations s)"


text \<open>One allocation record per user and month.\<close>

definition distinctKeys :: "Store \<Rightarrow> bool" where
  "distinctKeys s = distinct (map (\<lambda>a. (userId a, month a)) (getAllocations s))"


text \<open>
  The states the program reaches from a fresh browser: seeding, a session of the
  assignment dialog (any user, any month, any events), \<open>ensureMonthlyAllocation\<close> (as
  the login does for the user it finds), and an admin reset of either type for any
  selection of user ids (the settings screen lists the employees).
\<close>

inductive reachable :: "Store \<Rightarrow> bool" where
  seeded: "reachable (initializeDemoData m now emptyStore)"
| transfer: "reachable s \<Longrightarrow> reachable (snd (runDialog cu m evs s))"
| ensure: "reachable s \<Longrightarrow> reachable (snd (ensureMonthlyAllocation m u s))"
| reset: "reachable s \<Longrightarrow> reachable (handleResetPoints m resetType selectedUsers s)"


section \<open>Readings used in the statements and proofs\<close>

text \<open>The balance of a user in a month, when the user has an allocation record.\<close>

definition pointsRemainingOf :: "Store \<Rightarrow> string \<Rightarrow> string \<Rightarrow> int option" where
  "pointsRemainingOf s u m = map_option pointsRemaining (getUserAllocation u m s)"

definition pointsReceivedOf :: "Store \<Rightarrow> string \<Rightarrow> string \<Rightarrow> int option" where
  "pointsReceivedOf s u m = map_option pointsReceived (getUserAllocation u m s)"

text \<open>The record \<open>handleSubmit\<close> builds from the form.\<close>

definition submitted :: "User \<Rightarrow> string \<Rightarrow> string \<Rightarrow> int \<Rightarrow> Dialog \<Rightarrow> User \<Rightarrow> PointAssignment" where
  "submitted cu m newId now d su = \<lparr>
     aid = newId,
     fromUserId = uid cu,
     toUserId = uid su,
     points = points_st d,
     category = category_st d,
     message = (if trim (message_st d) = [] then None else Some (trim (message_st d))),
     timestamp = now,
     amonth = m\<rparr>"

text \<open>The record \<open>ensureMonthlyAllocation\<close> creates.\<close>

definition fresh :: "string \<Rightarrow> string \<Rightarrow> MonthlyAllocation" where
  "fresh m u = \<lparr>userId = u, month = m, pointsRemaining = 10, pointsReceived = 0\<rparr>"

text \<open>What a reset writes into the record it finds.\<close>

definition resetAllocation :: "ResetType \<Rightarrow> MonthlyAllocation \<Rightarrow> MonthlyAllocation" where
  "resetAllocation resetType a =
     (if resetType = total then a\<lparr>pointsRemaining := 10, pointsReceived := 0\<rparr>
      else a\<lparr>pointsReceived := 0\<rparr>)"

text \<open>
  The allocations \<open>updateAllocation\<close> writes, by recursion on the collection (shown
  equal to the source's \<open>findIndex\<close> form in \<open>replaceFirst_eq\<close>).
\<close>

fun replaceFirst :: "MonthlyAllocation \<Rightarrow> MonthlyAllocation list \<Rightarrow> MonthlyAllocation list" where
  "replaceFirst a [] = [a]"
| "replaceFirst a (x # xs) =
     (if userId x = userId a \<and> month x = month a then a # xs else x # replaceFirst a xs)"

text \<open>The allocations after seeding in month \<open>m\<close>, as \<open>seed_explicit\<close> shows.\<close>

definition seedAllocations :: "string \<Rightarrow> MonthlyAllocation list" where
  "seedAllocations m = [
     \<lparr>userId = ''admin'', month = m, pointsRemaining = 10, pointsReceived = 0\<rparr>,
     \<lparr>userId = ''1'', month = m, pointsRemaining = 8, pointsReceived = 5\<rparr>,
     \<lparr>userId = ''2'', month = m, pointsRemaining = 7, pointsReceived = 4\<rparr>,
     \<lparr>userId = ''3'', month = m, pointsRemaining = 10, pointsReceived = 0\<rparr>,
     \<lparr>userId = ''4'', month = m, pointsRemaining = 8, pointsReceived = 2\<rparr>,
     \<lparr>userId = ''5'', month = m, pointsRemaining = 6, pointsReceived = 0\<rparr>,
     \<lparr>userId = ''6'', month = m, pointsRemaining = 10, pointsReceived = 0\<rparr>,
     \<lparr>userId = ''7'', month = m, pointsRemaining = 10, pointsReceived = 0\<rparr>,
     \<lparr>userId = ''8'', month = m, pointsRemaining = 10, pointsReceived = 0\<rparr>]"

text \<open>The columns of a report row other than the points given.\<close>

definition assignmentColumns ::
    "ReportRow \<Rightarrow> string \<times> string \<times> string \<times> string \<times> int \<times> nat \<times> (string \<times> int) list" where
  "assignmentColumns r =
     (userId_r r, name_r r, email_r r, department_r r, pointsReceived_r r, recognitionCount r,
      categoryBreakdown r)"

text \<open>
  Whether the user \<open>handleLogin\<close> finds for an address is a superadmin.
\<close>

definition superadminLogin :: "Store \<Rightarrow> string \<Rightarrow> bool" where
  "superadminLogin s email_in =
     (case find (\<lambda>u. toLowerCase (email u) = toLowerCase email_in) (getUsers s) of
        Some u \<Rightarrow> role u = superadmin
      | None \<Rightarrow> False)"

text \<open>
  What holds of the dialog throughout a session opened on the store \<open>s0\<close>: the state
  variables set on mount keep their values, the points are one of the buttons' values,
  the selected user is another user of the store, the category is empty or one the
  chooser offers, the confirmation is shown only for a form that passes
  \<open>validateForm\<close>, and the store is \<open>s0\<close> until the one submission.
\<close>

definition dialogOk :: "User \<Rightarrow> string \<Rightarrow> Store \<Rightarrow> Dialog \<times> Store \<Rightarrow> bool" where
  "dialogOk cu m s0 st =
     (case st of
        (d, s) \<Rightarrow>
          availablePoints d = availablePoints (mountDialog cu m s0) \<and>
          users_st d = users_st (mountDialog cu m s0) \<and>
          points_st d \<in> set [1, 2, 3, 5] \<and>
          (case selectedUser d of
             None \<Rightarrow> True | Some su \<Rightarrow> su \<in> set (getUsers s0) \<and> uid su \<noteq> uid cu) \<and>
          (category_st d = [] \<or> category_st d \<in> set (map name (enabledCategories s0))) \<and>
          (showConfirmation d \<longrightarrow> snd (validateForm d)) \<and>
          (if isSubmitting d
           then showConfirmation d \<and>
                (\<exists>newId now. s = snd (handleSubmit cu m newId now d s0))
           else s = s0))"


section \<open>Example data\<close>

text \<open>
  The scenario of the specification: Juan (id 2) and Maria (id 1), each with a fresh
  allocation for the month, and the form in which Juan gives Maria three points for
  team work. In \<open>juanOnlyStore\<close> Maria has not opened the month yet.
\<close>

definition juan :: User where
  "juan = \<lparr>uid = ''2'', uname = ''Juan P'' @ e_acute @ ''rez'', email = ''juan.perez@grupoprominente.com'',
     role = employee, department = ''Marketing''\<rparr>"

definition maria :: User where
  "maria = \<lparr>uid = ''1'', uname = ''Mar'' @ i_acute @ ''a Garc'' @ i_acute @ ''a'',
     email = ''maria.garcia@grupoprominente.com'', role = employee, department = ''Desarrollo''\<rparr>"

definition exampleStore :: Store where
  "exampleStore = emptyStore\<lparr>
     USERS := [maria, juan],
     ALLOCATIONS := [
       \<lparr>userId = ''1'', month = ''2026-11'', pointsRemaining = 10, pointsReceived = 0\<rparr>,
       \<lparr>userId = ''2'', month = ''2026-11'', pointsRemaining = 10, pointsReceived = 0\<rparr>]\<rparr>"

definition juanOnlyStore :: Store where
  "juanOnlyStore = emptyStore\<lparr>
     USERS := [maria, juan],
     ALLOCATIONS := [
       \<lparr>userId = ''2'', month = ''2026-11'', pointsRemaining = 10, pointsReceived = 0\<rparr>]\<rparr>"

definition exampleForm :: Dialog where
  "exampleForm = initialDialog\<lparr>
     users_st := [maria],
     selectedUser := Some maria,
     points_st := 3,
     category_st := ''Trabajo en equipo'',
     availablePoints := 10,
     showConfirmation := True\<rparr>"

definition oldConfigStore :: Store where
  "oldConfigStore = emptyStore\<lparr>SYSTEM_CONFIG := Some \<lparr>
     sc_categories = [\<lparr>name = ''Liderazgo'', enabled = False\<rparr>, \<lparr>name = ''Foco'', enabled = True\<rparr>],
     sc_loginContent = Some \<lparr>title = ''Puntos'', subtitle = ''GP'', description = ''Demo'',
                              helpEmail = ''help@grupoprominente.com''\<rparr>,
     sc_onboardingSteps = None,
     sc_emailNotifications = None,
     sc_otherFields = [(''theme'', ''dark'')]\<rparr>\<rparr>"

text \<open>The store a fresh browser holds after seeding in October 2026.\<close>

definition seedOctober :: Store where
  "seedOctober = initializeDemoData ''2026-10'' 0 emptyStore"

text \<open>The example store with all of Juan's points given, and the form he then has.\<close>

definition brokeStore :: Store where
  "brokeStore = exampleStore\<lparr>ALLOCATIONS := [
       \<lparr>userId = ''1'', month = ''2026-11'', pointsRemaining = 10, pointsReceived = 0\<rparr>,
       \<lparr>userId = ''2'', month = ''2026-11'', pointsRemaining = 0, pointsReceived = 0\<rparr>]\<rparr>"

definition brokeForm :: Dialog where
  "brokeForm = initialDialog\<lparr>
     users_st := [maria],
     selectedUser := Some maria,
     category_st := ''Liderazgo''\<rparr>"





section \<open>Facts about the allocation collection\<close>

lemma findIndex_lower: "- 1 \<le> findIndex P xs"
  by (induction xs) (auto simp: Let_def)

lemma findIndex_neg_iff: "findIndex P xs < 0 \<longleftrightarrow> find P xs = None"
proof (induction xs)
  case Nil
  show ?case by simp
next
  case (Cons x xs)
  have "- 1 \<le> findIndex P xs" by (rule findIndex_lower)
  with Cons show ?case by (auto simp: Let_def)
qed

lemma findIndex_found:
  "find P xs = Some y \<Longrightarrow>
     0 \<le> findIndex P xs \<and> nat (findIndex P xs) < length xs \<and> xs ! nat (findIndex P xs) = y"
proof (induction xs)
  case Nil
  then show ?case by simp
next
  case (Cons x xs)
  show ?case
  proof (cases "P x")
    case True
    with Cons.prems show ?thesis by simp
  next
    case False
    with Cons.prems have f: "find P xs = Some y" by simp
    from Cons.IH [OF f] False show ?thesis
      by (simp add: Let_def nat_add_distrib)
  qed
qed

lemma updateAllocation_absent:
  "getUserAllocation (userId a) (month a) s = None \<Longrightarrow>
     updateAllocation a s = s\<lparr>ALLOCATIONS := ALLOCATIONS s @ [a]\<rparr>"
proof -
  assume "getUserAllocation (userId a) (month a) s = None"
  then have "findIndex (\<lambda>b. userId b = userId a \<and> month b = month a) (ALLOCATIONS s) < 0"
    by (simp add: findIndex_neg_iff getUserAllocation_def getAllocations_def)
  then show ?thesis
    by (simp add: updateAllocation_def Let_def getAllocations_def setAllocations_def)
qed

lemma find_append_key:
  "find P (xs @ [a]) = (case find P xs of Some y \<Rightarrow> Some y | None \<Rightarrow> if P a then Some a else None)"
  by (induction xs) auto

lemma find_key:
  "find P xs = Some y \<Longrightarrow> P y \<and> y \<in> set xs"
  by (induction xs) (auto split: if_splits)

lemma getUserAllocation_key:
  "getUserAllocation u m s = Some a \<Longrightarrow> userId a = u \<and> month a = m \<and> a \<in> set (ALLOCATIONS s)"
  unfolding getUserAllocation_def getAllocations_def by (drule find_key) simp

lemma find_update_same:
  "find P xs = Some old \<Longrightarrow> P a \<Longrightarrow> find P (xs[nat (findIndex P xs) := a]) = Some a"
proof (induction xs)
  case Nil
  then show ?case by simp
next
  case (Cons x xs)
  show ?case
  proof (cases "P x")
    case True
    with Cons.prems show ?thesis by simp
  next
    case False
    with Cons.prems have f: "find P xs = Some old" by simp
    from findIndex_found [OF f] have "0 \<le> findIndex P xs" by simp
    then have "nat (findIndex P xs + 1) = Suc (nat (findIndex P xs))" by simp
    with Cons.IH [OF f Cons.prems(2)] False \<open>0 \<le> findIndex P xs\<close> show ?thesis
      by (simp add: Let_def)
  qed
qed

lemma find_update_other:
  "i < length xs \<Longrightarrow> \<not> Q (xs ! i) \<Longrightarrow> \<not> Q a \<Longrightarrow> find Q (xs[i := a]) = find Q xs"
proof (induction xs arbitrary: i)
  case Nil
  then show ?case by simp
next
  case (Cons x xs)
  then show ?case by (cases i) auto
qed

lemma updateAllocation_present:
  assumes "getUserAllocation (userId a) (month a) s = Some old"
  shows "updateAllocation a s =
           s\<lparr>ALLOCATIONS := (ALLOCATIONS s)
                [nat (findIndex (\<lambda>b. userId b = userId a \<and> month b = month a) (ALLOCATIONS s)) := a]\<rparr>"
proof -
  from assms have "find (\<lambda>b. userId b = userId a \<and> month b = month a) (ALLOCATIONS s) = Some old"
    by (simp add: getUserAllocation_def getAllocations_def)
  from findIndex_found [OF this] show ?thesis
    by (simp add: updateAllocation_def Let_def getAllocations_def setAllocations_def)
qed

lemma lookup_updateAllocation:
  "getUserAllocation u m (updateAllocation a s) =
     (if u = userId a \<and> m = month a then Some a else getUserAllocation u m s)"
proof (cases "getUserAllocation (userId a) (month a) s")
  case None
  from updateAllocation_absent [OF None] None show ?thesis
    by (auto simp: getUserAllocation_def getAllocations_def find_append_key split: option.splits)
next
  case (Some old)
  let ?P = "\<lambda>b. userId b = userId a \<and> month b = month a"
  let ?i = "nat (findIndex ?P (ALLOCATIONS s))"
  from Some have f: "find ?P (ALLOCATIONS s) = Some old"
    by (simp add: getUserAllocation_def getAllocations_def)
  from findIndex_found [OF f] have i: "?i < length (ALLOCATIONS s)" "ALLOCATIONS s ! ?i = old"
    by simp_all
  from find_key [OF f] have old: "userId old = userId a" "month old = month a" by simp_all
  show ?thesis
  proof (cases "u = userId a \<and> m = month a")
    case True
    with find_update_same [OF f, of a] updateAllocation_present [OF Some] show ?thesis
      by (simp add: getUserAllocation_def getAllocations_def)
  next
    case False
    have "find (\<lambda>b. userId b = u \<and> month b = m) ((ALLOCATIONS s)[?i := a])
            = find (\<lambda>b. userId b = u \<and> month b = m) (ALLOCATIONS s)"
      using i old False by (intro find_update_other) auto
    with False updateAllocation_present [OF Some] show ?thesis
      by (auto simp: getUserAllocation_def getAllocations_def)
  qed
qed

lemma updateAllocation_fields [simp]:
  "ASSIGNMENTS (updateAllocation a s) = ASSIGNMENTS s"
  "USERS (updateAllocation a s) = USERS s"
  "CURRENT_USER (updateAllocation a s) = CURRENT_USER s"
  "SYSTEM_CONFIG (updateAllocation a s) = SYSTEM_CONFIG s"
  by (simp_all add: updateAllocation_def Let_def setAllocations_def)

lemma updateAllocation_length:
  "getUserAllocation (userId a) (month a) s \<noteq> None \<Longrightarrow>
     length (ALLOCATIONS (updateAllocation a s)) = length (ALLOCATIONS s)"
  by (auto simp: updateAllocation_present)

lemma updateAllocation_nth:
  assumes "i < length (ALLOCATIONS s)"
    and "(userId (ALLOCATIONS s ! i), month (ALLOCATIONS s ! i)) \<noteq> (userId a, month a)"
  shows "ALLOCATIONS (updateAllocation a s) ! i = ALLOCATIONS s ! i"
proof (cases "getUserAllocation (userId a) (month a) s")
  case None
  from updateAllocation_absent [OF None] assms(1) show ?thesis
    by (simp add: nth_append)
next
  case (Some old)
  let ?P = "\<lambda>b. userId b = userId a \<and> month b = month a"
  from Some have f: "find ?P (ALLOCATIONS s) = Some old"
    by (simp add: getUserAllocation_def getAllocations_def)
  from findIndex_found [OF f] find_key [OF f] assms(2)
  have "nat (findIndex ?P (ALLOCATIONS s)) \<noteq> i" by auto
  with updateAllocation_present [OF Some] show ?thesis by simp
qed

lemma addAssignment_fields [simp]:
  "ASSIGNMENTS (addAssignment x s) = ASSIGNMENTS s @ [x]"
  "ALLOCATIONS (addAssignment x s) = ALLOCATIONS s"
  "USERS (addAssignment x s) = USERS s"
  "CURRENT_USER (addAssignment x s) = CURRENT_USER s"
  "SYSTEM_CONFIG (addAssignment x s) = SYSTEM_CONFIG s"
  by (simp_all add: addAssignment_def setAssignments_def getAssignments_def)

lemma lookup_addAssignment [simp]:
  "getUserAllocation u m (addAssignment x s) = getUserAllocation u m s"
  by (simp add: getUserAllocation_def getAllocations_def)

lemma lookup_set_assignments:
  "getUserAllocation u m (x\<lparr>ASSIGNMENTS := y\<rparr>) = getUserAllocation u m x"
  by (simp add: getUserAllocation_def getAllocations_def)

lemma replaceFirst_eq:
  "replaceFirst a xs =
     (let index = findIndex (\<lambda>b. userId b = userId a \<and> month b = month a) xs
      in if index \<ge> 0 then xs[nat index := a] else xs @ [a])"
proof (induction xs)
  case Nil
  show ?case by simp
next
  case (Cons x xs)
  have "- 1 \<le> findIndex (\<lambda>b. userId b = userId a \<and> month b = month a) xs"
    by (rule findIndex_lower)
  with Cons show ?case
    by (auto simp: Let_def nat_add_distrib)
qed

lemma updateAllocation_replaceFirst:
  "updateAllocation a s = s\<lparr>ALLOCATIONS := replaceFirst a (ALLOCATIONS s)\<rparr>"
  by (simp add: updateAllocation_def replaceFirst_eq Let_def getAllocations_def setAllocations_def)




lemma ensure_absent:
  "getUserAllocation u m s = None \<Longrightarrow>
     ensureMonthlyAllocation m u s = (fresh m u, s\<lparr>ALLOCATIONS := ALLOCATIONS s @ [fresh m u]\<rparr>)"
  using updateAllocation_absent [of "fresh m u" s]
  by (simp add: ensureMonthlyAllocation_def Let_def fresh_def)


section \<open>Facts about seeding\<close>

lemma seed_allocations:
  "foldl (\<lambda>st user. snd (ensureMonthlyAllocation m (uid user) st))
     (setUsers demoUsers emptyStore) demoUsers
   = emptyStore\<lparr>USERS := demoUsers,
       ALLOCATIONS := map (fresh m) [''admin'', ''1'', ''2'', ''3'', ''4'', ''5'', ''6'', ''7'', ''8'']\<rparr>"
proof -
  have "foldl (\<lambda>st user. snd (ensureMonthlyAllocation m (uid user) st))
          (setUsers demoUsers emptyStore) demoUsers
    = foldl (\<lambda>st u. snd (ensureMonthlyAllocation m u st)) (emptyStore\<lparr>USERS := demoUsers\<rparr>)
        (map uid demoUsers)"
    by (simp add: foldl_map setUsers_def)
  also have "map uid demoUsers = [''admin'', ''1'', ''2'', ''3'', ''4'', ''5'', ''6'', ''7'', ''8'']"
    by (simp add: demoUsers_def)
  also have "foldl (\<lambda>st u. snd (ensureMonthlyAllocation m u st)) (emptyStore\<lparr>USERS := demoUsers\<rparr>)
        [''admin'', ''1'', ''2'', ''3'', ''4'', ''5'', ''6'', ''7'', ''8'']
     = emptyStore\<lparr>USERS := demoUsers,
         ALLOCATIONS := map (fresh m) [''admin'', ''1'', ''2'', ''3'', ''4'', ''5'', ''6'', ''7'', ''8'']\<rparr>"
    by (simp add: ensure_absent getUserAllocation_def getAllocations_def emptyStore_def fresh_def)
  finally show ?thesis .
qed

lemma seed_explicit:
  "initializeDemoData m now emptyStore =
     emptyStore\<lparr>USERS := demoUsers, ALLOCATIONS := seedAllocations m,
       ASSIGNMENTS := demoAssignments m now\<rparr>"
proof -
  have u: "getUsers emptyStore = []" by (simp add: getUsers_def emptyStore_def)
  have "foldl (applyDemoAssignment m)
          (setAssignments (demoAssignments m now)
             (emptyStore\<lparr>USERS := demoUsers,
                ALLOCATIONS := map (fresh m) [''admin'', ''1'', ''2'', ''3'', ''4'', ''5'', ''6'', ''7'', ''8'']\<rparr>))
          (demoAssignments m now)
        = emptyStore\<lparr>USERS := demoUsers, ALLOCATIONS := seedAllocations m,
            ASSIGNMENTS := demoAssignments m now\<rparr>"
    unfolding demoAssignments_def
    by (simp add: applyDemoAssignment_def Let_def setAssignments_def updateAllocation_replaceFirst
        getUserAllocation_def getAllocations_def fresh_def emptyStore_def seedAllocations_def)
  then show ?thesis
    by (simp add: initializeDemoData_def u Let_def seed_allocations)
qed

lemma seedOctober_explicit:
  "seedOctober = emptyStore\<lparr>USERS := demoUsers, ALLOCATIONS := seedAllocations ''2026-10'',
       ASSIGNMENTS := demoAssignments ''2026-10'' 0\<rparr>"
  by (simp add: seedOctober_def seed_explicit)

lemma find_admin:
  "find (\<lambda>u. toLowerCase (email u) = toLowerCase ''admin@sistema.local'') demoUsers
     = Some (hd demoUsers)"
  by (simp add: demoUsers_def toLowerCase_def toLowerChar_def)

lemma find_JUAN:
  "find (\<lambda>u. toLowerCase (email u) = toLowerCase ''JUAN.PEREZ@GRUPOPROMINENTE.COM'') demoUsers
     = Some juan"
  by (simp add: demoUsers_def toLowerCase_def toLowerChar_def juan_def)

section \<open>Facts about the form and handleSubmit\<close>

lemma validateForm_ok:
  "snd (validateForm d) \<longleftrightarrow>
     selectedUser d \<noteq> None \<and> category_st d \<noteq> [] \<and> points_st d \<le> availablePoints d"
  by (auto simp: validateForm_def Let_def)

lemma validateForm_ignores [simp]:
  "validateForm (d\<lparr>errors := e\<rparr>) = validateForm d"
  "validateForm (d\<lparr>showConfirmation := b\<rparr>) = validateForm d"
  "validateForm (d\<lparr>isSubmitting := b\<rparr>) = validateForm d"
  "validateForm (d\<lparr>searchTerm := t\<rparr>) = validateForm d"
  "validateForm (d\<lparr>message_st := t\<rparr>) = validateForm d"
  by (simp_all add: validateForm_def)

lemma handlePreview_eq:
  "handlePreview d =
     (if snd (validateForm d)
      then d\<lparr>errors := fst (validateForm d), showConfirmation := True\<rparr>
      else d\<lparr>errors := fst (validateForm d)\<rparr>)"
  by (simp add: handlePreview_def split: prod.splits)

lemma handleSubmit_store:
  assumes "selectedUser d = Some su" and "category_st d \<noteq> []"
  shows "snd (handleSubmit cu m newId now d s) =
     (let x = submitted cu m newId now d su;
          s1 = addAssignment x s;
          s2 = (case getUserAllocation (uid cu) m s of
                  None \<Rightarrow> s1
                | Some a \<Rightarrow>
                    updateAllocation (a\<lparr>pointsRemaining := pointsRemaining a - points_st d\<rparr>) s1)
      in (case getUserAllocation (uid su) m s2 of
            None \<Rightarrow> s2
          | Some b \<Rightarrow>
              updateAllocation (b\<lparr>pointsReceived := pointsReceived b + points_st d\<rparr>) s2))"
proof -
  define x where "x = submitted cu m newId now d su"
  have "snd (handleSubmit cu m newId now d s) =
     (let s1 = addAssignment x s;
          s2 = (case getUserAllocation (uid cu) m s1 of
                  None \<Rightarrow> s1
                | Some a \<Rightarrow>
                    updateAllocation (a\<lparr>pointsRemaining := pointsRemaining a - points_st d\<rparr>) s1)
      in (case getUserAllocation (uid su) m s2 of
            None \<Rightarrow> s2
          | Some b \<Rightarrow>
              updateAllocation (b\<lparr>pointsReceived := pointsReceived b + points_st d\<rparr>) s2))"
    unfolding handleSubmit_def x_def submitted_def using assms by (simp add: Let_def)
  then show ?thesis
    unfolding x_def [symmetric] Let_def lookup_addAssignment .
qed

lemma handleSubmit_fields:
  "ASSIGNMENTS (snd (handleSubmit cu m newId now d s)) =
     (case selectedUser d of
        None \<Rightarrow> ASSIGNMENTS s
      | Some su \<Rightarrow> if category_st d = [] then ASSIGNMENTS s
                   else ASSIGNMENTS s @ [submitted cu m newId now d su])"
  "USERS (snd (handleSubmit cu m newId now d s)) = USERS s"
  "SYSTEM_CONFIG (snd (handleSubmit cu m newId now d s)) = SYSTEM_CONFIG s"
  "CURRENT_USER (snd (handleSubmit cu m newId now d s)) = CURRENT_USER s"
  by (simp_all add: handleSubmit_def submitted_def Let_def split: option.splits)

lemma handleSubmit_lookup:
  assumes sel: "selectedUser d = Some su" and cat: "category_st d \<noteq> []"
  shows "getUserAllocation u' m' (snd (handleSubmit cu m newId now d s)) =
     (if u' = uid su \<and> m' = m
      then map_option (\<lambda>b. b\<lparr>pointsReceived := pointsReceived b + points_st d\<rparr>)
             (if uid su = uid cu
              then map_option (\<lambda>a. a\<lparr>pointsRemaining := pointsRemaining a - points_st d\<rparr>)
                     (getUserAllocation (uid cu) m s)
              else getUserAllocation (uid su) m s)
      else if u' = uid cu \<and> m' = m
      then map_option (\<lambda>a. a\<lparr>pointsRemaining := pointsRemaining a - points_st d\<rparr>)
             (getUserAllocation (uid cu) m s)
      else getUserAllocation u' m' s)"
proof -
  let ?x = "submitted cu m newId now d su"
  let ?s1 = "addAssignment ?x s"
  let ?s2 = "case getUserAllocation (uid cu) m s of
               None \<Rightarrow> ?s1
             | Some a \<Rightarrow>
                 updateAllocation (a\<lparr>pointsRemaining := pointsRemaining a - points_st d\<rparr>) ?s1"
  have l2: "getUserAllocation u m' ?s2 =
      (if u = uid cu \<and> m' = m
       then map_option (\<lambda>a. a\<lparr>pointsRemaining := pointsRemaining a - points_st d\<rparr>)
              (getUserAllocation (uid cu) m s)
       else getUserAllocation u m' s)" for u m'
  proof (cases "getUserAllocation (uid cu) m s")
    case None
    then show ?thesis by auto
  next
    case (Some a)
    with getUserAllocation_key [OF Some] show ?thesis
      by (simp add: lookup_updateAllocation)
  qed
  show ?thesis
  proof (cases "getUserAllocation (uid su) m ?s2")
    case None
    then have "snd (handleSubmit cu m newId now d s) = ?s2"
      by (simp add: handleSubmit_store [OF sel cat] Let_def)
    with None l2 [of u' m'] l2 [of "uid su" m] show ?thesis
      by (auto split: if_splits)
  next
    case (Some b)
    then have s': "snd (handleSubmit cu m newId now d s) =
        updateAllocation (b\<lparr>pointsReceived := pointsReceived b + points_st d\<rparr>) ?s2"
      by (simp add: handleSubmit_store [OF sel cat] Let_def)
    from getUserAllocation_key [OF Some] have kb: "userId b = uid su" "month b = m" by simp_all
    from Some l2 [of "uid su" m] l2 [of u' m'] kb show ?thesis
      unfolding s' lookup_updateAllocation by (auto split: if_splits)
  qed
qed

lemma handleSubmit_isSubmitting:
  "snd (handleSubmit cu m newId now (d\<lparr>isSubmitting := b\<rparr>) s) =
     snd (handleSubmit cu m newId now d s)"
  by (simp add: handleSubmit_def Let_def split: option.splits)

lemma handleSubmit_fst:
  "fst (handleSubmit cu m newId now d s) =
     (if selectedUser d \<noteq> None \<and> category_st d \<noteq> [] then d\<lparr>isSubmitting := True\<rparr> else d)"
  by (simp add: handleSubmit_def Let_def split: option.splits)

section \<open>Facts about the reset\<close>

lemma resetAllocation_idem [simp]:
  "resetAllocation rt (resetAllocation rt a) = resetAllocation rt a"
  by (simp add: resetAllocation_def)

lemma resetAllocation_key [simp]:
  "userId (resetAllocation rt a) = userId a" "month (resetAllocation rt a) = month a"
  by (simp_all add: resetAllocation_def)

lemma resetUser_step:
  assumes al: "ALLOCATIONS s = al"
  obtains al' s' where "resetUser m rt (al, s) u = (al', s')"
    and "ALLOCATIONS s' = al'"
    and "ASSIGNMENTS s' = ASSIGNMENTS s"
    and "USERS s' = USERS s"
    and "SYSTEM_CONFIG s' = SYSTEM_CONFIG s"
    and "CURRENT_USER s' = CURRENT_USER s"
    and "\<And>u' m'. getUserAllocation u' m' s' =
           (if u' = u \<and> m' = m then map_option (resetAllocation rt) (getUserAllocation u m s)
            else getUserAllocation u' m' s)"
    and "set al' \<subseteq> set al \<union> resetAllocation rt ` set al"
proof (cases "find (\<lambda>a. userId a = u \<and> month a = m) al")
  case None
  then have l: "getUserAllocation u m s = None"
    by (simp add: getUserAllocation_def getAllocations_def al)
  show ?thesis
  proof (rule that [of al s])
    show "resetUser m rt (al, s) u = (al, s)" using None by (simp add: resetUser_def)
    show "getUserAllocation u' m' s =
           (if u' = u \<and> m' = m then map_option (resetAllocation rt) (getUserAllocation u m s)
            else getUserAllocation u' m' s)" for u' m'
      using l by simp
  qed (simp_all add: al)
next
  case (Some found)
  let ?P = "\<lambda>a. userId a = u \<and> month a = m"
  let ?r = "resetAllocation rt found"
  from find_key [OF Some] have k: "userId found = u" "month found = m" "found \<in> set al"
    by simp_all
  have l: "getUserAllocation u m s = Some found"
    using Some by (simp add: getUserAllocation_def getAllocations_def al)
  then have l': "getUserAllocation (userId ?r) (month ?r) s = Some found"
    using k by simp
  have upd: "updateAllocation ?r s = s\<lparr>ALLOCATIONS := al[nat (findIndex ?P al) := ?r]\<rparr>"
    using updateAllocation_present [OF l'] k by (simp add: al)
  show ?thesis
  proof (rule that [of "al[nat (findIndex ?P al) := ?r]" "updateAllocation ?r s"])
    show "resetUser m rt (al, s) u = (al[nat (findIndex ?P al) := ?r], updateAllocation ?r s)"
      using Some by (simp add: resetUser_def resetAllocation_def Let_def)
    show "ALLOCATIONS (updateAllocation ?r s) = al[nat (findIndex ?P al) := ?r]"
      by (simp add: upd)
    show "getUserAllocation u' m' (updateAllocation ?r s) =
           (if u' = u \<and> m' = m then map_option (resetAllocation rt) (getUserAllocation u m s)
            else getUserAllocation u' m' s)" for u' m'
      using l k by (simp add: lookup_updateAllocation)
    have "set (al[nat (findIndex ?P al) := ?r]) \<subseteq> insert ?r (set al)"
      by (rule set_update_subset_insert)
    with k show "set (al[nat (findIndex ?P al) := ?r]) \<subseteq> set al \<union> resetAllocation rt ` set al"
      by auto
  qed simp_all
qed

lemma resetUser_fold:
  assumes "ALLOCATIONS s = al"
  shows "ALLOCATIONS (snd (foldl (resetUser m rt) (al, s) sel)) = fst (foldl (resetUser m rt) (al, s) sel) \<and>
    ASSIGNMENTS (snd (foldl (resetUser m rt) (al, s) sel)) = ASSIGNMENTS s \<and>
    USERS (snd (foldl (resetUser m rt) (al, s) sel)) = USERS s \<and>
    SYSTEM_CONFIG (snd (foldl (resetUser m rt) (al, s) sel)) = SYSTEM_CONFIG s \<and>
    CURRENT_USER (snd (foldl (resetUser m rt) (al, s) sel)) = CURRENT_USER s \<and>
    (\<forall>u' m'. getUserAllocation u' m' (snd (foldl (resetUser m rt) (al, s) sel)) =
       (if u' \<in> set sel \<and> m' = m then map_option (resetAllocation rt) (getUserAllocation u' m s)
        else getUserAllocation u' m' s)) \<and>
    set (fst (foldl (resetUser m rt) (al, s) sel)) \<subseteq> set al \<union> resetAllocation rt ` set al"
  using assms
proof (induction sel arbitrary: al s)
  case Nil
  then show ?case by simp
next
  case (Cons u us)
  show ?case
  proof (rule resetUser_step [OF Cons.prems, where m = m and rt = rt and u = u])
    fix al' s'
    assume st: "resetUser m rt (al, s) u = (al', s')"
      and al': "ALLOCATIONS s' = al'"
      and f: "ASSIGNMENTS s' = ASSIGNMENTS s" "USERS s' = USERS s"
        "SYSTEM_CONFIG s' = SYSTEM_CONFIG s" "CURRENT_USER s' = CURRENT_USER s"
      and l: "\<And>u' m'. getUserAllocation u' m' s' =
           (if u' = u \<and> m' = m then map_option (resetAllocation rt) (getUserAllocation u m s)
            else getUserAllocation u' m' s)"
      and sub: "set al' \<subseteq> set al \<union> resetAllocation rt ` set al"
    note IH = Cons.IH [OF al']
    have sub2: "set al' \<union> resetAllocation rt ` set al' \<subseteq> set al \<union> resetAllocation rt ` set al"
      using sub by auto
    have look: "(if u' \<in> set us \<and> m' = m
                 then map_option (resetAllocation rt) (getUserAllocation u' m s')
                 else getUserAllocation u' m' s') =
                (if u' \<in> set (u # us) \<and> m' = m
                 then map_option (resetAllocation rt) (getUserAllocation u' m s)
                 else getUserAllocation u' m' s)" for u' m'
      by (simp add: l option.map_comp comp_def)
    from IH have "set (fst (foldl (resetUser m rt) (al', s') us))
        \<subseteq> set al' \<union> resetAllocation rt ` set al'" by blast
    with sub2 have sub3: "set (fst (foldl (resetUser m rt) (al', s') us))
        \<subseteq> set al \<union> resetAllocation rt ` set al" by (rule order_trans [rotated])
    from IH f have rest:
      "ALLOCATIONS (snd (foldl (resetUser m rt) (al', s') us)) =
         fst (foldl (resetUser m rt) (al', s') us)"
      "ASSIGNMENTS (snd (foldl (resetUser m rt) (al', s') us)) = ASSIGNMENTS s"
      "USERS (snd (foldl (resetUser m rt) (al', s') us)) = USERS s"
      "SYSTEM_CONFIG (snd (foldl (resetUser m rt) (al', s') us)) = SYSTEM_CONFIG s"
      "CURRENT_USER (snd (foldl (resetUser m rt) (al', s') us)) = CURRENT_USER s"
      "\<forall>u' m'. getUserAllocation u' m' (snd (foldl (resetUser m rt) (al', s') us)) =
         (if u' \<in> set us \<and> m' = m
          then map_option (resetAllocation rt) (getUserAllocation u' m s')
          else getUserAllocation u' m' s')"
      by simp_all
    from rest sub3 show ?thesis
      unfolding foldl_Cons st look by (intro conjI)
  qed
qed

lemma handleResetPoints_unfold:
  "handleResetPoints m rt sel s =
     (if sel = [] then s
      else if rt = total
      then (snd (foldl (resetUser m rt) (ALLOCATIONS s, s) sel))\<lparr>ASSIGNMENTS :=
              filter (\<lambda>a. amonth a \<noteq> m \<or> (toUserId a \<notin> set sel \<and> fromUserId a \<notin> set sel))
                (ASSIGNMENTS s)\<rparr>
      else snd (foldl (resetUser m rt) (ALLOCATIONS s, s) sel))"
  by (simp add: handleResetPoints_def Let_def getAllocations_def getAssignments_def
      setAssignments_def)

lemma handleResetPoints_facts:
  "getUserAllocation u' m' (handleResetPoints m rt sel s) =
     (if u' \<in> set sel \<and> m' = m then map_option (resetAllocation rt) (getUserAllocation u' m s)
      else getUserAllocation u' m' s)"
  "ASSIGNMENTS (handleResetPoints m rt sel s) =
     (if rt = total
      then filter (\<lambda>a. amonth a \<noteq> m \<or> (toUserId a \<notin> set sel \<and> fromUserId a \<notin> set sel))
             (ASSIGNMENTS s)
      else ASSIGNMENTS s)"
  "set (ALLOCATIONS (handleResetPoints m rt sel s))
     \<subseteq> set (ALLOCATIONS s) \<union> resetAllocation rt ` set (ALLOCATIONS s)"
  "USERS (handleResetPoints m rt sel s) = USERS s"
  "SYSTEM_CONFIG (handleResetPoints m rt sel s) = SYSTEM_CONFIG s"
  "CURRENT_USER (handleResetPoints m rt sel s) = CURRENT_USER s"
proof -
  define F where "F = foldl (resetUser m rt) (ALLOCATIONS s, s) sel"
  note f = resetUser_fold [OF refl, where s = s and m = m and rt = rt and sel = sel,
      folded F_def]
  from f have f1: "ALLOCATIONS (snd F) = fst F" by (rule conjunct1)
  from f have f2: "ASSIGNMENTS (snd F) = ASSIGNMENTS s" by blast
  from f have f3: "USERS (snd F) = USERS s" by blast
  from f have f4: "SYSTEM_CONFIG (snd F) = SYSTEM_CONFIG s" by blast
  from f have f5: "CURRENT_USER (snd F) = CURRENT_USER s" by blast
  from f have f6: "getUserAllocation u' m' (snd F) =
       (if u' \<in> set sel \<and> m' = m then map_option (resetAllocation rt) (getUserAllocation u' m s)
        else getUserAllocation u' m' s)" for u' m' by blast
  from f have f7: "set (fst F) \<subseteq> set (ALLOCATIONS s) \<union> resetAllocation rt ` set (ALLOCATIONS s)"
    by blast
  have h: "handleResetPoints m rt sel s =
     (if sel = [] then s
      else if rt = total
      then (snd F)\<lparr>ASSIGNMENTS :=
              filter (\<lambda>a. amonth a \<noteq> m \<or> (toUserId a \<notin> set sel \<and> fromUserId a \<notin> set sel))
                (ASSIGNMENTS s)\<rparr>
      else snd F)"
    unfolding F_def by (rule handleResetPoints_unfold)
  show "getUserAllocation u' m' (handleResetPoints m rt sel s) =
     (if u' \<in> set sel \<and> m' = m then map_option (resetAllocation rt) (getUserAllocation u' m s)
      else getUserAllocation u' m' s)"
    unfolding h by (simp add: lookup_set_assignments f6)
  show "ASSIGNMENTS (handleResetPoints m rt sel s) =
     (if rt = total
      then filter (\<lambda>a. amonth a \<noteq> m \<or> (toUserId a \<notin> set sel \<and> fromUserId a \<notin> set sel))
             (ASSIGNMENTS s)
      else ASSIGNMENTS s)"
    unfolding h by (simp add: f2)
  have "set (ALLOCATIONS (snd F)) \<subseteq> set (ALLOCATIONS s) \<union> resetAllocation rt ` set (ALLOCATIONS s)"
    using f7 by (simp only: f1)
  then show "set (ALLOCATIONS (handleResetPoints m rt sel s))
     \<subseteq> set (ALLOCATIONS s) \<union> resetAllocation rt ` set (ALLOCATIONS s)"
    unfolding h by (cases "sel = []"; cases "rt = total") auto
  show "USERS (handleResetPoints m rt sel s) = USERS s"
    "SYSTEM_CONFIG (handleResetPoints m rt sel s) = SYSTEM_CONFIG s"
    "CURRENT_USER (handleResetPoints m rt sel s) = CURRENT_USER s"
    unfolding h by (simp_all add: f3 f4 f5)
qed

section \<open>Facts about the report\<close>

lemma report_eq:
  "report m s = map (reportRow m (filter (\<lambda>a. amonth a = m) (getAssignments s)) s) (getUsers s)"
  by (simp add: report_def loadData_def Let_def)

lemma report_pointsGiven:
  "map pointsGiven (report m s) =
     map (\<lambda>u. case getUserAllocation (uid u) m s of
                 Some a \<Rightarrow> 10 - pointsRemaining a | None \<Rightarrow> 0) (getUsers s)"
  by (simp add: report_eq reportRow_def Let_def)

section \<open>Facts about a session of the dialog\<close>

lemma includes_str_empty [simp]: "includes_str s []"
  by (cases s) simp_all

lemma filteredUsers_subset: "set (filteredUsers d) \<subseteq> set (users_st d)"
  by (auto simp: filteredUsers_def)

lemma dialogOk_mount: "dialogOk cu m s0 (mountDialog cu m s0, s0)"
  by (simp add: dialogOk_def mountDialog_def initialDialog_def)

lemma dialogOk_step:
  assumes ok: "dialogOk cu m s0 (d, s)"
  shows "dialogOk cu m s0 (step cu m ev (d, s))"
proof -
  from ok have av: "availablePoints d = availablePoints (mountDialog cu m s0)"
    and us: "users_st d = users_st (mountDialog cu m s0)"
    and pt: "points_st d \<in> set [1, 2, 3, 5]"
    and su: "case selectedUser d of
               None \<Rightarrow> True | Some su \<Rightarrow> su \<in> set (getUsers s0) \<and> uid su \<noteq> uid cu"
    and ct: "category_st d = [] \<or> category_st d \<in> set (map name (enabledCategories s0))"
    and cf: "showConfirmation d \<longrightarrow> snd (validateForm d)"
    and sb: "if isSubmitting d
             then showConfirmation d \<and> (\<exists>newId now. s = snd (handleSubmit cu m newId now d s0))
             else s = s0"
    by (simp_all add: dialogOk_def)
  have keep: "dialogOk cu m s0 (d, s)" by (rule ok)
  show ?thesis
  proof (cases ev)
    case (SetSearchTerm t)
    show ?thesis
    proof (cases "\<not> showConfirmation d \<and> selectedUser d = None")
      case True
      with av us pt ct sb show ?thesis
        unfolding SetSearchTerm by (auto simp: dialogOk_def split: if_splits)
    next
      case False
      with keep show ?thesis unfolding SetSearchTerm by auto
    qed
  next
    case (SelectUser user)
    show ?thesis
    proof (cases "\<not> showConfirmation d \<and> selectedUser d = None \<and> user \<in> set (filteredUsers d)")
      case True
      with filteredUsers_subset [of d] us have "user \<in> set (getUsers s0) \<and> uid user \<noteq> uid cu"
        by (auto simp: mountDialog_def initialDialog_def)
      with True av us pt ct sb show ?thesis
        unfolding SelectUser by (auto simp: dialogOk_def split: if_splits)
    next
      case False
      with keep show ?thesis unfolding SelectUser by auto
    qed
  next
    case ClearUser
    show ?thesis
    proof (cases "\<not> showConfirmation d \<and> selectedUser d \<noteq> None")
      case True
      with av us pt ct sb show ?thesis
        unfolding ClearUser by (auto simp: dialogOk_def split: if_splits)
    next
      case False
      with keep show ?thesis unfolding ClearUser by auto
    qed
  next
    case (SetPoints v)
    show ?thesis
    proof (cases "\<not> showConfirmation d \<and> selectedUser d \<noteq> None \<and> v \<in> set [1, 2, 3, 5] \<and>
         \<not> v > availablePoints d")
      case True
      with av us su ct sb show ?thesis
        unfolding SetPoints by (auto simp: dialogOk_def split: if_splits)
    next
      case False
      with keep show ?thesis unfolding SetPoints by auto
    qed
  next
    case (SetCategory c)
    show ?thesis
    proof (cases "\<not> showConfirmation d \<and> selectedUser d \<noteq> None \<and>
         c \<in> set (map name (enabledCategories s))")
      case True
      with sb have "s = s0" by (auto split: if_splits)
      with True av us pt su sb show ?thesis
        unfolding SetCategory by (auto simp: dialogOk_def split: if_splits)
    next
      case False
      with keep show ?thesis unfolding SetCategory by auto
    qed
  next
    case (SetMessage t)
    show ?thesis
    proof (cases "\<not> showConfirmation d \<and> selectedUser d \<noteq> None")
      case True
      with av us pt su ct sb show ?thesis
        unfolding SetMessage by (auto simp: dialogOk_def split: if_splits)
    next
      case False
      with keep show ?thesis unfolding SetMessage by auto
    qed
  next
    case Preview
    show ?thesis
    proof (cases "\<not> showConfirmation d \<and> selectedUser d \<noteq> None \<and>
         \<not> (category_st d = [] \<or> availablePoints d = 0 \<or> isSubmitting d)")
      case True
      with av us pt su ct sb show ?thesis
        unfolding Preview by (auto simp: dialogOk_def handlePreview_eq split: if_splits)
    next
      case False
      with keep show ?thesis unfolding Preview by auto
    qed
  next
    case Back
    show ?thesis
    proof (cases "showConfirmation d \<and> \<not> isSubmitting d")
      case True
      with av us pt su ct sb show ?thesis
        unfolding Back by (auto simp: dialogOk_def handleBack_def split: if_splits)
    next
      case False
      with keep show ?thesis unfolding Back by auto
    qed
  next
    case (Submit newId now)
    show ?thesis
    proof (cases "showConfirmation d \<and> \<not> isSubmitting d")
      case True
      with cf have v: "selectedUser d \<noteq> None" "category_st d \<noteq> []" "snd (validateForm d)"
        by (simp_all add: validateForm_ok)
      from True sb have s: "s = s0" by simp
      have st: "step cu m ev (d, s) =
          (d\<lparr>isSubmitting := True\<rparr>, snd (handleSubmit cu m newId now d s0))"
        unfolding Submit using True v s
        by (simp add: prod_eq_iff handleSubmit_fst)
      have "\<exists>i n. snd (handleSubmit cu m newId now d s0) =
               snd (handleSubmit cu m i n (d\<lparr>isSubmitting := True\<rparr>) s0)"
        unfolding handleSubmit_isSubmitting by blast
      with True av us pt su ct v show ?thesis
        unfolding st by (simp add: dialogOk_def)
    next
      case False
      with keep show ?thesis unfolding Submit by auto
    qed
  qed
qed

lemma dialogOk_foldl:
  "dialogOk cu m s0 st \<Longrightarrow> dialogOk cu m s0 (foldl (\<lambda>st ev. step cu m ev st) st evs)"
proof (induction evs arbitrary: st)
  case Nil
  then show ?case by simp
next
  case (Cons ev evs)
  from Cons.prems have "dialogOk cu m s0 (step cu m ev st)"
    by (cases st) (simp add: dialogOk_step)
  from Cons.IH [OF this] show ?case by simp
qed

lemma dialogOk_run: "dialogOk cu m s0 (runDialog cu m evs s0)"
  unfolding runDialog_def by (rule dialogOk_foldl [OF dialogOk_mount])

lemma dialog_session:
  assumes "runDialog cu m evs s = (d, s')"
  shows "availablePoints d =
           (case getUserAllocation (uid cu) m s of None \<Rightarrow> 0 | Some a \<Rightarrow> pointsRemaining a)"
    and "category_st d = [] \<or> category_st d \<in> set (map name (enabledCategories s))"
    and "showConfirmation d \<longrightarrow> snd (validateForm d)"
    and "isSubmitting d \<longrightarrow> showConfirmation d"
    and "\<not> isSubmitting d \<longrightarrow> s' = s"
    and "points_st d \<in> set [1, 2, 3, 5]"
  using dialogOk_run [of cu m s evs] assms
  by (auto simp: dialogOk_def mountDialog_def initialDialog_def split: if_splits)

lemma step_store:
  "\<not> showConfirmation d \<Longrightarrow> snd (step cu m ev (d, s)) = s"
  by (cases ev) auto

lemma step_confirmation:
  "\<not> showConfirmation d \<Longrightarrow> \<not> snd (validateForm d) \<Longrightarrow>
     \<not> showConfirmation (fst (step cu m ev (d, s)))"
  by (cases ev) (auto simp: handlePreview_eq)


lemma brokeStore_session:
  "runDialog juan ''2026-11''
     [SelectUser maria, SetCategory ''Liderazgo'', Preview, Submit ''t1'' 1000] brokeStore
   = (brokeForm, brokeStore)"
proof -
  have m: "mountDialog juan ''2026-11'' brokeStore = initialDialog\<lparr>users_st := [maria]\<rparr>"
    by (simp add: mountDialog_def brokeStore_def exampleStore_def emptyStore_def getUsers_def
        getUserAllocation_def getAllocations_def juan_def maria_def initialDialog_def)
  have f: "maria \<in> set (filteredUsers (initialDialog\<lparr>users_st := [maria]\<rparr>))"
    by (simp add: filteredUsers_def initialDialog_def toLowerCase_def)
  have c: "''Liderazgo'' \<in> set (map name (enabledCategories brokeStore))"
    by (simp add: enabledCategories_def getSystemConfig_def brokeStore_def exampleStore_def
        emptyStore_def asStored_def getDefaultConfig_def)
  show ?thesis
    unfolding runDialog_def m using f c
    by (simp add: initialDialog_def brokeForm_def)
qed




section \<open>Balances stay non-negative\<close>


lemma nonNegative_addAssignment [simp]: "nonNegative (addAssignment x s) = nonNegative s"
  by (simp add: nonNegative_def getAllocations_def)








section \<open>The ledger invariants are kept\<close>


lemma distinctKeys_addAssignment [simp]: "distinctKeys (addAssignment x s) = distinctKeys s"
  by (simp add: distinctKeys_def getAllocations_def)









section \<open>A transfer between two users with allocation records\<close>

text \<open>
  C1. A form that passes \<open>validateForm\<close>, from sender \<open>cu\<close> to the selected receiver
  \<open>su\<close>, in a month \<open>m\<close> for which both have an allocation record: after
  \<open>handleSubmit\<close> the sender's \<open>pointsRemaining\<close> is lower by the points of the form, the
  receiver's \<open>pointsReceived\<close> is higher by them, the assignments are the old ones followed
  by the one new record with these parties, points and category, and no allocation record
  of another user or month changes (as a lookup, and position by position in the
  collection, whose length is kept). Users, configuration and session are untouched.
\<close>

theorem handleSubmit_transfer:
  assumes valid: "snd (validateForm d)"
    and sel: "selectedUser d = Some su"
    and A: "getUserAllocation (uid cu) m s = Some a"
    and B: "getUserAllocation (uid su) m s = Some b"
  shows "(let s' = snd (handleSubmit cu m newId now d s) in
     pointsRemainingOf s' (uid cu) m = Some (pointsRemaining a - points_st d) \<and>
     pointsReceivedOf s' (uid su) m = Some (pointsReceived b + points_st d) \<and>
     getAssignments s' = getAssignments s @ [submitted cu m newId now d su] \<and>
     (uid su \<noteq> uid cu \<longrightarrow>
        getUserAllocation (uid cu) m s' =
          Some (a\<lparr>pointsRemaining := pointsRemaining a - points_st d\<rparr>) \<and>
        getUserAllocation (uid su) m s' =
          Some (b\<lparr>pointsReceived := pointsReceived b + points_st d\<rparr>)) \<and>
     (\<forall>u' m'. (u', m') \<noteq> (uid cu, m) \<and> (u', m') \<noteq> (uid su, m) \<longrightarrow>
        getUserAllocation u' m' s' = getUserAllocation u' m' s) \<and>
     length (getAllocations s') = length (getAllocations s) \<and>
     (\<forall>i < length (getAllocations s).
        (userId (getAllocations s ! i), month (getAllocations s ! i)) \<noteq> (uid cu, m) \<and>
        (userId (getAllocations s ! i), month (getAllocations s ! i)) \<noteq> (uid su, m) \<longrightarrow>
        getAllocations s' ! i = getAllocations s ! i) \<and>
     USERS s' = USERS s \<and> SYSTEM_CONFIG s' = SYSTEM_CONFIG s \<and>
     CURRENT_USER s' = CURRENT_USER s)"
proof -
  let ?P = "points_st d"
  let ?x = "submitted cu m newId now d su"
  let ?a' = "a\<lparr>pointsRemaining := pointsRemaining a - ?P\<rparr>"
  let ?s1 = "addAssignment ?x s"
  let ?s2 = "updateAllocation ?a' ?s1"
  from valid have cat: "category_st d \<noteq> []" by (simp add: validateForm_ok)
  from getUserAllocation_key [OF A] have ka: "userId a = uid cu" "month a = m" by simp_all
  from getUserAllocation_key [OF B] have kb: "userId b = uid su" "month b = m" by simp_all
  have B2: "getUserAllocation (uid su) m ?s2 = Some (if uid su = uid cu then ?a' else b)"
    using B ka by (simp add: lookup_updateAllocation)
  define b2 where "b2 = (if uid su = uid cu then ?a' else b)"
  let ?b' = "b2\<lparr>pointsReceived := pointsReceived b2 + ?P\<rparr>"
  have kb2: "userId b2 = uid su" "month b2 = m"
    using ka kb by (simp_all add: b2_def)
  have s': "snd (handleSubmit cu m newId now d s) = updateAllocation ?b' ?s2"
    using handleSubmit_store [OF sel cat, of cu m newId now s] A B2
    by (simp add: Let_def b2_def)
  have recvb2: "pointsReceived b2 = pointsReceived b"
    using A B by (auto simp: b2_def)
  have look: "getUserAllocation u' m' (updateAllocation ?b' ?s2) =
      (if u' = uid su \<and> m' = m then Some ?b'
       else if u' = uid cu \<and> m' = m then Some ?a'
       else getUserAllocation u' m' s)" for u' m'
    using ka kb2 by (simp add: lookup_updateAllocation)
  have rem: "pointsRemainingOf (updateAllocation ?b' ?s2) (uid cu) m = Some (pointsRemaining a - ?P)"
    unfolding pointsRemainingOf_def look by (simp add: b2_def)
  have rec: "pointsReceivedOf (updateAllocation ?b' ?s2) (uid su) m = Some (pointsReceived b + ?P)"
    unfolding pointsReceivedOf_def look by (simp add: recvb2)
  have asg: "getAssignments (updateAllocation ?b' ?s2) = getAssignments s @ [?x]"
    by (simp add: getAssignments_def)
  have neq: "uid su \<noteq> uid cu \<Longrightarrow>
      getUserAllocation (uid cu) m (updateAllocation ?b' ?s2) = Some ?a' \<and>
      getUserAllocation (uid su) m (updateAllocation ?b' ?s2) =
        Some (b\<lparr>pointsReceived := pointsReceived b + ?P\<rparr>)"
    unfolding look by (auto simp: b2_def)
  have others: "getUserAllocation u' m' (updateAllocation ?b' ?s2) = getUserAllocation u' m' s"
    if "(u', m') \<noteq> (uid cu, m) \<and> (u', m') \<noteq> (uid su, m)" for u' m'
    using that unfolding look by auto
  have A1: "getUserAllocation (userId ?a') (month ?a') ?s1 \<noteq> None"
    using A ka by simp
  have B2': "getUserAllocation (userId ?b') (month ?b') ?s2 \<noteq> None"
    using B2 kb2 by simp
  have len2: "length (ALLOCATIONS ?s2) = length (ALLOCATIONS s)"
    using updateAllocation_length [OF A1] by simp
  have len: "length (getAllocations (updateAllocation ?b' ?s2)) = length (getAllocations s)"
    using updateAllocation_length [OF B2'] len2 by (simp add: getAllocations_def)
  have nth: "getAllocations (updateAllocation ?b' ?s2) ! i = getAllocations s ! i"
    if i: "i < length (getAllocations s)"
      and k: "(userId (getAllocations s ! i), month (getAllocations s ! i)) \<noteq> (uid cu, m) \<and>
              (userId (getAllocations s ! i), month (getAllocations s ! i)) \<noteq> (uid su, m)"
    for i
  proof -
    have n2: "ALLOCATIONS ?s2 ! i = ALLOCATIONS s ! i"
      using updateAllocation_nth [of i ?s1 ?a'] i k ka by (simp add: getAllocations_def)
    have "ALLOCATIONS (updateAllocation ?b' ?s2) ! i = ALLOCATIONS ?s2 ! i"
      using i k kb2 len2 n2 by (intro updateAllocation_nth) (auto simp: getAllocations_def)
    with n2 show ?thesis by (simp add: getAllocations_def)
  qed
  show ?thesis
    unfolding Let_def s'
    using rem rec asg neq others len nth by simp
qed

theorem handleSubmit_transfer_witness:
  "snd (validateForm exampleForm) \<and>
   selectedUser exampleForm = Some maria \<and>
   getUserAllocation (uid juan) ''2026-11'' exampleStore =
     Some \<lparr>userId = ''2'', month = ''2026-11'', pointsRemaining = 10, pointsReceived = 0\<rparr> \<and>
   getUserAllocation (uid maria) ''2026-11'' exampleStore =
     Some \<lparr>userId = ''1'', month = ''2026-11'', pointsRemaining = 10, pointsReceived = 0\<rparr> \<and>
   pointsRemainingOf (snd (handleSubmit juan ''2026-11'' ''t1'' 1000 exampleForm exampleStore))
     ''2'' ''2026-11'' = Some 7 \<and>
   pointsReceivedOf (snd (handleSubmit juan ''2026-11'' ''t1'' 1000 exampleForm exampleStore))
     ''1'' ''2026-11'' = Some 3 \<and>
   getAssignments (snd (handleSubmit juan ''2026-11'' ''t1'' 1000 exampleForm exampleStore)) =
     [\<lparr>aid = ''t1'', fromUserId = ''2'', toUserId = ''1'', points = 3,
       category = ''Trabajo en equipo'', message = None, timestamp = 1000,
       amonth = ''2026-11''\<rparr>]"
proof -
  have v: "snd (validateForm exampleForm)"
    by (simp add: validateForm_def exampleForm_def initialDialog_def)
  have u: "selectedUser exampleForm = Some maria"
    by (simp add: exampleForm_def initialDialog_def)
  have a: "getUserAllocation (uid juan) ''2026-11'' exampleStore =
     Some \<lparr>userId = ''2'', month = ''2026-11'', pointsRemaining = 10, pointsReceived = 0\<rparr>"
    by (simp add: getUserAllocation_def getAllocations_def exampleStore_def emptyStore_def juan_def)
  have b: "getUserAllocation (uid maria) ''2026-11'' exampleStore =
     Some \<lparr>userId = ''1'', month = ''2026-11'', pointsRemaining = 10, pointsReceived = 0\<rparr>"
    by (simp add: getUserAllocation_def getAllocations_def exampleStore_def emptyStore_def maria_def)
  have f: "points_st exampleForm = 3" "category_st exampleForm = ''Trabajo en equipo''"
      "message_st exampleForm = []"
    by (simp_all add: exampleForm_def initialDialog_def)
  have g: "getAssignments exampleStore = []" "uid juan = ''2''" "uid maria = ''1''"
    by (simp_all add: getAssignments_def exampleStore_def emptyStore_def juan_def maria_def)
  from handleSubmit_transfer [OF v u a b, of "''t1''" 1000] v u a b show ?thesis
    by (simp add: Let_def f g submitted_def trim_def)
qed

section \<open>A request above the sender's balance\<close>

text \<open>
  C2. A form that asks for more points than \<open>availablePoints\<close> does not pass
  \<open>validateForm\<close>: the error under \<open>points\<close> is set and \<open>handlePreview\<close> changes the
  errors only. In a session of the dialog \<open>availablePoints\<close> is the sender's
  \<open>pointsRemaining\<close> in the store (or \<open>0\<close> without a record); when the form of the
  session asks for more, the confirmation is not shown, the store is the store the session
  began with, and whatever the user does next leaves every collection of the store as it
  is and does not bring the confirmation up.
\<close>

theorem excess_points_rejected:
  assumes "points_st d > availablePoints d"
  shows "\<not> snd (validateForm d) \<and>
    (''points'', ''Solo tienes '' @ numToString (availablePoints d) @ '' puntos disponibles'')
       \<in> set (fst (validateForm d)) \<and>
    handlePreview d = d\<lparr>errors := fst (validateForm d)\<rparr> \<and>
    (\<forall>cu m evs s s'. runDialog cu m evs s = (d, s') \<longrightarrow>
       availablePoints d =
         (case getUserAllocation (uid cu) m s of None \<Rightarrow> 0 | Some a \<Rightarrow> pointsRemaining a) \<and>
       \<not> showConfirmation d \<and> s' = s \<and>
       (\<forall>ev. snd (step cu m ev (d, s')) = s \<and>
             \<not> showConfirmation (fst (step cu m ev (d, s')))))"
proof -
  from assms have v: "\<not> snd (validateForm d)" by (simp add: validateForm_ok)
  from assms have e: "(''points'',
      ''Solo tienes '' @ numToString (availablePoints d) @ '' puntos disponibles'')
       \<in> set (fst (validateForm d))"
    by (simp add: validateForm_def Let_def)
  from v have p: "handlePreview d = d\<lparr>errors := fst (validateForm d)\<rparr>"
    by (simp add: handlePreview_eq)
  have session: "availablePoints d =
         (case getUserAllocation (uid cu) m s of None \<Rightarrow> 0 | Some a \<Rightarrow> pointsRemaining a) \<and>
       \<not> showConfirmation d \<and> s' = s \<and>
       (\<forall>ev. snd (step cu m ev (d, s')) = s \<and>
             \<not> showConfirmation (fst (step cu m ev (d, s'))))"
    if r: "runDialog cu m evs s = (d, s')" for cu m evs s s'
  proof -
    from dialog_session(3) [OF r] v have c: "\<not> showConfirmation d" by blast
    with dialog_session(4) [OF r] have "\<not> isSubmitting d" by blast
    with dialog_session(5) [OF r] have s: "s' = s" by blast
    from c s v dialog_session(1) [OF r] show ?thesis
      by (simp add: step_store step_confirmation)
  qed
  from v e p session show ?thesis by blast
qed

theorem excess_points_rejected_witness:
  "points_st brokeForm > availablePoints brokeForm \<and>
   runDialog juan ''2026-11''
     [SelectUser maria, SetCategory ''Liderazgo'', Preview, Submit ''t1'' 1000] brokeStore
     = (brokeForm, brokeStore) \<and>
   pointsRemainingOf brokeStore (uid juan) ''2026-11'' = Some 0 \<and>
   \<not> snd (validateForm brokeForm) \<and>
   \<not> showConfirmation brokeForm \<and>
   snd (step juan ''2026-11'' (Submit ''t1'' 1000) (brokeForm, brokeStore)) = brokeStore"
proof -
  have h: "points_st brokeForm > availablePoints brokeForm"
    by (simp add: brokeForm_def initialDialog_def)
  have r: "pointsRemainingOf brokeStore (uid juan) ''2026-11'' = Some 0"
    by (simp add: pointsRemainingOf_def getUserAllocation_def getAllocations_def brokeStore_def
        juan_def)
  from excess_points_rejected [OF h] brokeStore_session h r show ?thesis by blast
qed

section \<open>The ledger invariants in the reachable states\<close>




section \<open>A category that is not enabled\<close>




section \<open>Admin total reset\<close>

text \<open>
  C5. A total reset in month \<open>m\<close> with \<open>u\<close> among the selected users, \<open>u\<close> having an
  allocation record for \<open>m\<close>: afterwards that record has \<open>pointsReceived = 0\<close> and
  \<open>pointsRemaining = 10\<close> (and is otherwise the record it was). The assignments are the
  old ones, in their order, without those of month \<open>m\<close> that have a selected user as
  sender or receiver: none of month \<open>m\<close> with \<open>u\<close> on either side is left, and every
  assignment of another month, or of month \<open>m\<close> with no selected user on either side, is
  kept.
\<close>

theorem handleResetPoints_total:
  assumes "u \<in> set selectedUsers" and "getUserAllocation u m s = Some a"
  shows "(let s' = handleResetPoints m total selectedUsers s in
     pointsReceivedOf s' u m = Some 0 \<and>
     pointsRemainingOf s' u m = Some 10 \<and>
     getUserAllocation u m s' = Some (a\<lparr>pointsRemaining := 10, pointsReceived := 0\<rparr>) \<and>
     getAssignments s' =
       filter (\<lambda>x. amonth x \<noteq> m \<or>
                    (toUserId x \<notin> set selectedUsers \<and> fromUserId x \<notin> set selectedUsers))
         (getAssignments s) \<and>
     (\<forall>x \<in> set (getAssignments s').
        \<not> (amonth x = m \<and> (fromUserId x = u \<or> toUserId x = u))) \<and>
     (\<forall>x \<in> set (getAssignments s).
        amonth x \<noteq> m \<or>
        (fromUserId x \<notin> set selectedUsers \<and> toUserId x \<notin> set selectedUsers) \<longrightarrow>
        x \<in> set (getAssignments s')))"
proof -
  let ?s' = "handleResetPoints m total selectedUsers s"
  have l: "getUserAllocation u m ?s' = Some (a\<lparr>pointsRemaining := 10, pointsReceived := 0\<rparr>)"
    using assms by (simp add: handleResetPoints_facts resetAllocation_def)
  have asg: "getAssignments ?s' =
       filter (\<lambda>x. amonth x \<noteq> m \<or>
                    (toUserId x \<notin> set selectedUsers \<and> fromUserId x \<notin> set selectedUsers))
         (getAssignments s)"
    by (simp add: getAssignments_def handleResetPoints_facts)
  have gone: "\<forall>x \<in> set (getAssignments ?s').
        \<not> (amonth x = m \<and> (fromUserId x = u \<or> toUserId x = u))"
    unfolding asg using assms(1) by auto
  have kept: "\<forall>x \<in> set (getAssignments s).
        amonth x \<noteq> m \<or>
        (fromUserId x \<notin> set selectedUsers \<and> toUserId x \<notin> set selectedUsers) \<longrightarrow>
        x \<in> set (getAssignments ?s')"
    unfolding asg by auto
  from l asg gone kept show ?thesis
    unfolding Let_def pointsReceivedOf_def pointsRemainingOf_def by simp
qed

theorem handleResetPoints_total_witness:
  "''1'' \<in> set [''1''] \<and>
   getUserAllocation ''1'' ''2026-10'' seedOctober =
     Some \<lparr>userId = ''1'', month = ''2026-10'', pointsRemaining = 8, pointsReceived = 5\<rparr> \<and>
   map aid (getAssignments seedOctober) = [''1'', ''2'', ''3'', ''4''] \<and>
   getUserAllocation ''1'' ''2026-10'' (handleResetPoints ''2026-10'' total [''1''] seedOctober) =
     Some \<lparr>userId = ''1'', month = ''2026-10'', pointsRemaining = 10, pointsReceived = 0\<rparr> \<and>
   map aid (getAssignments (handleResetPoints ''2026-10'' total [''1''] seedOctober)) = [''3'']"
proof -
  have i: "''1'' \<in> set [''1'']" by simp
  have a: "getUserAllocation ''1'' ''2026-10'' seedOctober =
     Some \<lparr>userId = ''1'', month = ''2026-10'', pointsRemaining = 8, pointsReceived = 5\<rparr>"
    by (simp add: seedOctober_explicit getUserAllocation_def getAllocations_def seedAllocations_def)
  have g: "getAssignments seedOctober = demoAssignments ''2026-10'' 0"
    by (simp add: seedOctober_explicit getAssignments_def)
  have f: "map aid (filter (\<lambda>x. amonth x \<noteq> ''2026-10'' \<or>
                    (toUserId x \<notin> set [''1''] \<and> fromUserId x \<notin> set [''1'']))
         (demoAssignments ''2026-10'' 0)) = [''3'']"
       "map aid (demoAssignments ''2026-10'' 0) = [''1'', ''2'', ''3'', ''4'']"
    by (simp_all add: demoAssignments_def)
  note t = handleResetPoints_total [OF i a, unfolded Let_def]
  from t have t1: "getUserAllocation ''1'' ''2026-10''
        (handleResetPoints ''2026-10'' total [''1''] seedOctober) =
      Some \<lparr>userId = ''1'', month = ''2026-10'', pointsRemaining = 10, pointsReceived = 0\<rparr>"
    by simp
  from t have t2: "getAssignments (handleResetPoints ''2026-10'' total [''1''] seedOctober) =
       filter (\<lambda>x. amonth x \<noteq> ''2026-10'' \<or>
                    (toUserId x \<notin> set [''1''] \<and> fromUserId x \<notin> set [''1'']))
         (getAssignments seedOctober)"
    by (elim conjE)
  show ?thesis
    unfolding t2 g f using i a t1 by (intro conjI) simp_all
qed

section \<open>Loading an older configuration record\<close>

text \<open>
  C6. For a stored configuration record: when it lacks \<open>onboardingSteps\<close>,
  \<open>getSystemConfig\<close> returns the default sequence of four steps in that member; a
  missing \<open>loginContent\<close> and a missing \<open>emailNotifications\<close> are filled from the
  default in the same way, each on its own. \<open>categories\<close>, the members outside the
  interface, and each of the three members that the stored record has are returned as
  stored.
\<close>

theorem getSystemConfig_backfill:
  assumes "SYSTEM_CONFIG s = Some c"
  shows "(sc_onboardingSteps c = None \<longrightarrow>
            onboardingSteps (getSystemConfig s) = onboardingSteps getDefaultConfig \<and>
            length (onboardingSteps (getSystemConfig s)) = 4) \<and>
         (sc_loginContent c = None \<longrightarrow>
            loginContent (getSystemConfig s) = loginContent getDefaultConfig) \<and>
         (sc_emailNotifications c = None \<longrightarrow>
            emailNotifications (getSystemConfig s) = emailNotifications getDefaultConfig) \<and>
         categories (getSystemConfig s) = sc_categories c \<and>
         otherFields (getSystemConfig s) = sc_otherFields c \<and>
         (\<forall>st. sc_onboardingSteps c = Some st \<longrightarrow> onboardingSteps (getSystemConfig s) = st) \<and>
         (\<forall>l. sc_loginContent c = Some l \<longrightarrow> loginContent (getSystemConfig s) = l) \<and>
         (\<forall>e. sc_emailNotifications c = Some e \<longrightarrow> emailNotifications (getSystemConfig s) = e)"
proof -
  have four: "length (onboardingSteps getDefaultConfig) = 4"
    by (simp add: getDefaultConfig_def)
  from assms four show ?thesis
    by (simp add: getSystemConfig_def Let_def)
qed

theorem getSystemConfig_backfill_witness:
  "SYSTEM_CONFIG oldConfigStore \<noteq> None \<and>
   onboardingSteps (getSystemConfig oldConfigStore) = onboardingSteps getDefaultConfig \<and>
   map title_os (onboardingSteps (getSystemConfig oldConfigStore)) =
     [inv_excl @ ''Bienvenido a PromiPoints!'', ''10 Puntos Mensuales'',
      ''Asignaci'' @ o_acute @ ''n An'' @ o_acute @ ''nima'', inv_excl @ ''Est'' @ a_acute @ ''s listo!''] \<and>
   emailNotifications (getSystemConfig oldConfigStore) = emailNotifications getDefaultConfig \<and>
   categories (getSystemConfig oldConfigStore) =
     [\<lparr>name = ''Liderazgo'', enabled = False\<rparr>, \<lparr>name = ''Foco'', enabled = True\<rparr>] \<and>
   loginContent (getSystemConfig oldConfigStore) =
     \<lparr>title = ''Puntos'', subtitle = ''GP'', description = ''Demo'',
      helpEmail = ''help@grupoprominente.com''\<rparr> \<and>
   otherFields (getSystemConfig oldConfigStore) = [(''theme'', ''dark'')]"
proof -
  let ?c = "\<lparr>
     sc_categories = [\<lparr>name = ''Liderazgo'', enabled = False\<rparr>, \<lparr>name = ''Foco'', enabled = True\<rparr>],
     sc_loginContent = Some \<lparr>title = ''Puntos'', subtitle = ''GP'', description = ''Demo'',
                              helpEmail = ''help@grupoprominente.com''\<rparr>,
     sc_onboardingSteps = None,
     sc_emailNotifications = None,
     sc_otherFields = [(''theme'', ''dark'')]\<rparr>"
  have c: "SYSTEM_CONFIG oldConfigStore = Some ?c"
    by (simp add: oldConfigStore_def emptyStore_def)
  have t: "map title_os (onboardingSteps getDefaultConfig) =
     [inv_excl @ ''Bienvenido a PromiPoints!'', ''10 Puntos Mensuales'',
      ''Asignaci'' @ o_acute @ ''n An'' @ o_acute @ ''nima'', inv_excl @ ''Est'' @ a_acute @ ''s listo!'']"
    by (simp add: getDefaultConfig_def)
  from getSystemConfig_backfill [OF c] c t show ?thesis by simp
qed

section \<open>Login with an address outside the corporate domain\<close>

text \<open>
  C7, as the code has it. \<open>handleLogin\<close> lets a user whose role is \<open>superadmin\<close> in
  before it looks at the domain (the source says so in a comment), and the seeded
  superadmin's address is \<open>admin@sistema.local\<close>. For every other attempt with an
  address that does not end with \<open>@grupoprominente.com\<close> the result is the inline error
  about the corporate address, and the store is the same store: no session, no
  allocation record.
\<close>

theorem handleLogin_noncorporate:
  assumes "\<not> endsWith e ''@grupoprominente.com''" and "\<not> superadminLogin s e"
  shows "handleLogin m e s =
           (LoginError ''Debes usar tu correo corporativo (@grupoprominente.com)'', s)"
  using assms
  by (simp add: handleLogin_def superadminLogin_def Let_def split: option.splits)

text \<open>
  The claim as written fails for the seeded superadmin: the address is outside the
  domain, the login succeeds, the session is stored and the allocation record of the
  month is created.
\<close>

theorem handleLogin_superadmin_counterexample:
  "\<not> endsWith ''admin@sistema.local'' ''@grupoprominente.com'' \<and>
   fst (handleLogin ''2026-11'' ''admin@sistema.local'' seedOctober) = LoggedIn (hd demoUsers) \<and>
   CURRENT_USER seedOctober = None \<and>
   CURRENT_USER (snd (handleLogin ''2026-11'' ''admin@sistema.local'' seedOctober))
     = Some (hd demoUsers) \<and>
   getUserAllocation ''admin'' ''2026-11'' seedOctober = None \<and>
   getUserAllocation ''admin'' ''2026-11''
     (snd (handleLogin ''2026-11'' ''admin@sistema.local'' seedOctober))
     = Some \<lparr>userId = ''admin'', month = ''2026-11'', pointsRemaining = 10, pointsReceived = 0\<rparr>"
proof -
  have e: "\<not> endsWith ''admin@sistema.local'' ''@grupoprominente.com''"
    by (simp add: endsWith_def)
  have r: "role (hd demoUsers) = superadmin" "uid (hd demoUsers) = ''admin''"
    by (simp_all add: demoUsers_def)
  have n: "getUserAllocation ''admin'' ''2026-11'' seedOctober = None"
    by (simp add: seedOctober_explicit getUserAllocation_def getAllocations_def
        seedAllocations_def emptyStore_def)
  have c: "CURRENT_USER seedOctober = None"
    by (simp add: seedOctober_explicit emptyStore_def)
  have u: "getUsers seedOctober = demoUsers"
    by (simp add: seedOctober_explicit getUsers_def)
  have h: "handleLogin ''2026-11'' ''admin@sistema.local'' seedOctober =
      (LoggedIn (hd demoUsers),
       onLogin (hd demoUsers)
         (seedOctober\<lparr>ALLOCATIONS := ALLOCATIONS seedOctober @ [fresh ''2026-11'' ''admin'']\<rparr>))"
    by (simp add: handleLogin_def Let_def u find_admin r loginAs_def ensure_absent [OF n])
  show ?thesis
    unfolding h using e c n
    by (simp add: onLogin_def setCurrentUser_def getUserAllocation_def getAllocations_def
        find_append_key fresh_def)
qed

theorem handleLogin_noncorporate_witness:
  "\<not> endsWith ''JUAN.PEREZ@GRUPOPROMINENTE.COM'' ''@grupoprominente.com'' \<and>
   \<not> superadminLogin seedOctober ''JUAN.PEREZ@GRUPOPROMINENTE.COM'' \<and>
   handleLogin ''2026-11'' ''JUAN.PEREZ@GRUPOPROMINENTE.COM'' seedOctober =
     (LoginError ''Debes usar tu correo corporativo (@grupoprominente.com)'', seedOctober)"
proof -
  have e: "\<not> endsWith ''JUAN.PEREZ@GRUPOPROMINENTE.COM'' ''@grupoprominente.com''"
    by (simp add: endsWith_def)
  have u: "getUsers seedOctober = demoUsers"
    by (simp add: seedOctober_explicit getUsers_def)
  have a: "\<not> superadminLogin seedOctober ''JUAN.PEREZ@GRUPOPROMINENTE.COM''"
    by (simp add: superadminLogin_def u find_JUAN juan_def)
  from handleLogin_noncorporate [OF e a, of "''2026-11''"] e a show ?thesis by simp
qed

section \<open>ensureMonthlyAllocation\<close>

text \<open>
  C8. \<open>ensureMonthlyAllocation\<close> has no failing branch (the model is a total function with
  no error value, as the source has no throw). When a record for the user and the current
  month exists, that record is returned and the store is the same store. Otherwise the
  record with \<open>pointsRemaining = 10\<close> and \<open>pointsReceived = 0\<close> is returned and appended to
  the allocations, every earlier record staying in place, so that the lookup of any other
  user or month answers as before. A second call right after the first returns the same
  record and leaves the store of the first call.
\<close>

theorem ensureMonthlyAllocation_spec:
  "(\<forall>a. getUserAllocation u m s = Some a \<longrightarrow> ensureMonthlyAllocation m u s = (a, s)) \<and>
   (getUserAllocation u m s = None \<longrightarrow>
      (let new = \<lparr>userId = u, month = m, pointsRemaining = 10, pointsReceived = 0\<rparr>;
           s' = snd (ensureMonthlyAllocation m u s)
       in fst (ensureMonthlyAllocation m u s) = new \<and>
          s' = s\<lparr>ALLOCATIONS := ALLOCATIONS s @ [new]\<rparr> \<and>
          getUserAllocation u m s' = Some new \<and>
          (\<forall>u' m'. (u', m') \<noteq> (u, m) \<longrightarrow>
             getUserAllocation u' m' s' = getUserAllocation u' m' s))) \<and>
   (case ensureMonthlyAllocation m u s of
      (a1, s1) \<Rightarrow> ensureMonthlyAllocation m u s1 = (a1, s1))"
proof -
  let ?new = "\<lparr>userId = u, month = m, pointsRemaining = 10, pointsReceived = 0\<rparr>"
  have present: "ensureMonthlyAllocation m u s = (a, s)"
    if "getUserAllocation u m s = Some a" for a
    using that by (simp add: ensureMonthlyAllocation_def)
  have absent: "ensureMonthlyAllocation m u s = (?new, s\<lparr>ALLOCATIONS := ALLOCATIONS s @ [?new]\<rparr>)"
    if n: "getUserAllocation u m s = None"
  proof -
    have "updateAllocation ?new s = s\<lparr>ALLOCATIONS := ALLOCATIONS s @ [?new]\<rparr>"
      using n by (intro updateAllocation_absent) simp
    with n show ?thesis by (simp add: ensureMonthlyAllocation_def Let_def)
  qed
  have created: "getUserAllocation u m (s\<lparr>ALLOCATIONS := ALLOCATIONS s @ [?new]\<rparr>) = Some ?new"
    if n: "getUserAllocation u m s = None"
    using n by (simp add: getUserAllocation_def getAllocations_def find_append_key)
  have others: "getUserAllocation u' m' (s\<lparr>ALLOCATIONS := ALLOCATIONS s @ [?new]\<rparr>)
                  = getUserAllocation u' m' s"
    if "(u', m') \<noteq> (u, m)" for u' m'
    using that
    by (auto simp: getUserAllocation_def getAllocations_def find_append_key split: option.splits)
  have twice: "ensureMonthlyAllocation m u s1 = (a1, s1)"
    if e: "ensureMonthlyAllocation m u s = (a1, s1)" for a1 s1
  proof (cases "getUserAllocation u m s")
    case None
    from absent [OF None] e have "a1 = ?new" "s1 = s\<lparr>ALLOCATIONS := ALLOCATIONS s @ [?new]\<rparr>"
      by simp_all
    with created [OF None] show ?thesis by (simp add: ensureMonthlyAllocation_def)
  next
    case (Some a)
    from present [OF Some] e have "a1 = a" "s1 = s" by simp_all
    with Some show ?thesis by (simp add: ensureMonthlyAllocation_def)
  qed
  show ?thesis
  proof (intro conjI allI impI)
    fix a assume "getUserAllocation u m s = Some a"
    then show "ensureMonthlyAllocation m u s = (a, s)" by (rule present)
  next
    assume n: "getUserAllocation u m s = None"
    show "let new = ?new; s' = snd (ensureMonthlyAllocation m u s)
          in fst (ensureMonthlyAllocation m u s) = new \<and>
             s' = s\<lparr>ALLOCATIONS := ALLOCATIONS s @ [new]\<rparr> \<and>
             getUserAllocation u m s' = Some new \<and>
             (\<forall>u' m'. (u', m') \<noteq> (u, m) \<longrightarrow>
                getUserAllocation u' m' s' = getUserAllocation u' m' s)"
      unfolding Let_def absent [OF n] fst_conv snd_conv
      using created [OF n] others by blast
  next
    show "case ensureMonthlyAllocation m u s of (a1, s1) \<Rightarrow> ensureMonthlyAllocation m u s1 = (a1, s1)"
      using twice by (cases "ensureMonthlyAllocation m u s") simp
  qed
qed

theorem ensureMonthlyAllocation_spec_witness:
  "getUserAllocation ''1'' ''2026-11'' emptyStore = None \<and>
   ensureMonthlyAllocation ''2026-11'' ''1'' emptyStore =
     (\<lparr>userId = ''1'', month = ''2026-11'', pointsRemaining = 10, pointsReceived = 0\<rparr>,
      emptyStore\<lparr>ALLOCATIONS :=
        [\<lparr>userId = ''1'', month = ''2026-11'', pointsRemaining = 10, pointsReceived = 0\<rparr>]\<rparr>) \<and>
   getUserAllocation ''2'' ''2026-11'' (snd (ensureMonthlyAllocation ''2026-11'' ''1'' emptyStore))
     = None \<and>
   getUserAllocation ''1'' ''2026-11''
     (emptyStore\<lparr>ALLOCATIONS :=
        [\<lparr>userId = ''1'', month = ''2026-11'', pointsRemaining = 7, pointsReceived = 3\<rparr>]\<rparr>)
     = Some \<lparr>userId = ''1'', month = ''2026-11'', pointsRemaining = 7, pointsReceived = 3\<rparr> \<and>
   ensureMonthlyAllocation ''2026-11'' ''1''
     (emptyStore\<lparr>ALLOCATIONS :=
        [\<lparr>userId = ''1'', month = ''2026-11'', pointsRemaining = 7, pointsReceived = 3\<rparr>]\<rparr>)
     = (\<lparr>userId = ''1'', month = ''2026-11'', pointsRemaining = 7, pointsReceived = 3\<rparr>,
        emptyStore\<lparr>ALLOCATIONS :=
        [\<lparr>userId = ''1'', month = ''2026-11'', pointsRemaining = 7, pointsReceived = 3\<rparr>]\<rparr>)"
  using ensureMonthlyAllocation_spec [of "''1''" "''2026-11''" emptyStore]
    ensureMonthlyAllocation_spec [of "''1''" "''2026-11''"
      "emptyStore\<lparr>ALLOCATIONS :=
        [\<lparr>userId = ''1'', month = ''2026-11'', pointsRemaining = 7, pointsReceived = 3\<rparr>]\<rparr>"]
  by (simp add: emptyStore_def ensureMonthlyAllocation_def updateAllocation_def
      getUserAllocation_def getAllocations_def setAllocations_def Let_def)

section \<open>What the report depends on\<close>

text \<open>
  C9, as the code has it. \<open>loadData\<close> computes the points given of a row from the
  user's allocation record (\<open>10 - pointsRemaining\<close>, or \<open>0\<close> without a record). For a
  fixed user list and month, two stores with the same assignments give rows with the same
  identity columns, total received points, recognition count and category breakdown; the
  points given are the list read off the allocations; and the rows are the same rows when
  the users' allocation records for the month agree too.
\<close>

theorem report_inputs:
  assumes "getUsers s1 = getUsers s2" and "getAssignments s1 = getAssignments s2"
  shows "map assignmentColumns (report m s1) = map assignmentColumns (report m s2) \<and>
         map pointsGiven (report m s1) =
           map (\<lambda>u. case getUserAllocation (uid u) m s1 of
                       Some a \<Rightarrow> 10 - pointsRemaining a | None \<Rightarrow> 0) (getUsers s1) \<and>
         ((\<forall>u \<in> set (getUsers s1).
             getUserAllocation (uid u) m s1 = getUserAllocation (uid u) m s2) \<longrightarrow>
          report m s1 = report m s2)"
proof (intro conjI impI)
  show "map assignmentColumns (report m s1) = map assignmentColumns (report m s2)"
    using assms by (simp add: report_eq reportRow_def assignmentColumns_def Let_def)
  show "map pointsGiven (report m s1) =
           map (\<lambda>u. case getUserAllocation (uid u) m s1 of
                       Some a \<Rightarrow> 10 - pointsRemaining a | None \<Rightarrow> 0) (getUsers s1)"
    by (simp add: report_eq reportRow_def Let_def)
next
  assume "\<forall>u \<in> set (getUsers s1). getUserAllocation (uid u) m s1 = getUserAllocation (uid u) m s2"
  with assms show "report m s1 = report m s2"
    by (simp add: report_eq reportRow_def Let_def)
qed

text \<open>
  The claim as written fails. After seeding, a total reset of user 1 and a total reset of
  users 1 and 4 leave the same users and the same assignments (the one from user 5 to user
  2), and the row of user 4 has two points given after the first and none after the second.
\<close>

theorem report_allocations_counterexample:
  "reachable (handleResetPoints ''2026-10'' total [''1''] seedOctober) \<and>
   reachable (handleResetPoints ''2026-10'' total [''1'', ''4''] seedOctober) \<and>
   getUsers (handleResetPoints ''2026-10'' total [''1''] seedOctober) =
     getUsers (handleResetPoints ''2026-10'' total [''1'', ''4''] seedOctober) \<and>
   getAssignments (handleResetPoints ''2026-10'' total [''1''] seedOctober) =
     getAssignments (handleResetPoints ''2026-10'' total [''1'', ''4''] seedOctober) \<and>
   map pointsGiven (report ''2026-10'' (handleResetPoints ''2026-10'' total [''1''] seedOctober))
     = [0, 0, 3, 0, 2, 4, 0, 0, 0] \<and>
   map pointsGiven (report ''2026-10'' (handleResetPoints ''2026-10'' total [''1'', ''4''] seedOctober))
     = [0, 0, 3, 0, 0, 4, 0, 0, 0] \<and>
   report ''2026-10'' (handleResetPoints ''2026-10'' total [''1''] seedOctober) \<noteq>
     report ''2026-10'' (handleResetPoints ''2026-10'' total [''1'', ''4''] seedOctober)"
proof -
  let ?a = "handleResetPoints ''2026-10'' total [''1''] seedOctober"
  let ?b = "handleResetPoints ''2026-10'' total [''1'', ''4''] seedOctober"
  have r: "reachable ?a" "reachable ?b"
    unfolding seedOctober_def by (intro reachable.reset reachable.seeded)+
  have u: "getUsers ?a = demoUsers" "getUsers ?b = demoUsers"
    by (simp_all add: getUsers_def handleResetPoints_facts seedOctober_explicit)
  have x: "getAssignments ?a = getAssignments ?b"
    by (simp add: getAssignments_def handleResetPoints_facts seedOctober_explicit
        demoAssignments_def)
  have l: "getUserAllocation u ''2026-10'' seedOctober =
      find (\<lambda>a. userId a = u \<and> month a = ''2026-10'') (seedAllocations ''2026-10'')" for u
    by (simp add: getUserAllocation_def getAllocations_def seedOctober_explicit)
  have ga: "map pointsGiven (report ''2026-10'' ?a) = [0, 0, 3, 0, 2, 4, 0, 0, 0]"
    unfolding report_pointsGiven u
    by (simp add: demoUsers_def handleResetPoints_facts l seedAllocations_def
        resetAllocation_def)
  have gb: "map pointsGiven (report ''2026-10'' ?b) = [0, 0, 3, 0, 0, 4, 0, 0, 0]"
    unfolding report_pointsGiven u
    by (simp add: demoUsers_def handleResetPoints_facts l seedAllocations_def
        resetAllocation_def)
  from ga gb have n: "report ''2026-10'' ?a \<noteq> report ''2026-10'' ?b" by auto
  from r u x ga gb n show ?thesis by simp
qed

theorem report_inputs_witness:
  "getUsers seedOctober = getUsers (snd (ensureMonthlyAllocation ''2026-11'' ''1'' seedOctober)) \<and>
   getAssignments seedOctober =
     getAssignments (snd (ensureMonthlyAllocation ''2026-11'' ''1'' seedOctober)) \<and>
   getAllocations seedOctober \<noteq>
     getAllocations (snd (ensureMonthlyAllocation ''2026-11'' ''1'' seedOctober)) \<and>
   report ''2026-10'' seedOctober =
     report ''2026-10'' (snd (ensureMonthlyAllocation ''2026-11'' ''1'' seedOctober)) \<and>
   map pointsGiven (report ''2026-10'' seedOctober) = [0, 2, 3, 0, 2, 4, 0, 0, 0] \<and>
   map pointsReceived_r (report ''2026-10'' seedOctober) = [0, 5, 4, 0, 2, 0, 0, 0, 0] \<and>
   map recognitionCount (report ''2026-10'' seedOctober) = [0, 2, 1, 0, 1, 0, 0, 0, 0]"
proof -
  have n: "getUserAllocation ''1'' ''2026-11'' seedOctober = None"
    by (simp add: seedOctober_explicit getUserAllocation_def getAllocations_def
        seedAllocations_def emptyStore_def)
  define s2 where "s2 = snd (ensureMonthlyAllocation ''2026-11'' ''1'' seedOctober)"
  have s2: "s2 = seedOctober\<lparr>ALLOCATIONS := ALLOCATIONS seedOctober @ [fresh ''2026-11'' ''1'']\<rparr>"
    by (simp add: s2_def ensure_absent [OF n])
  have u: "getUsers seedOctober = getUsers s2"
    and a: "getAssignments seedOctober = getAssignments s2"
    and d: "getAllocations seedOctober \<noteq> getAllocations s2"
    and l: "\<forall>u \<in> set (getUsers seedOctober).
              getUserAllocation (uid u) ''2026-10'' seedOctober =
              getUserAllocation (uid u) ''2026-10'' s2"
    by (simp_all add: s2 getUsers_def getAssignments_def getUserAllocation_def
        getAllocations_def find_append_key fresh_def split: option.splits)
  have g: "map (\<lambda>u. case getUserAllocation (uid u) ''2026-10'' seedOctober of
                       Some a \<Rightarrow> 10 - pointsRemaining a | None \<Rightarrow> 0) (getUsers seedOctober)
           = [0, 2, 3, 0, 2, 4, 0, 0, 0]"
    by (simp add: seedOctober_explicit getUsers_def demoUsers_def getUserAllocation_def
        getAllocations_def seedAllocations_def)
  have r: "map pointsReceived_r (report ''2026-10'' seedOctober) = [0, 5, 4, 0, 2, 0, 0, 0, 0]"
    "map recognitionCount (report ''2026-10'' seedOctober) = [0, 2, 1, 0, 1, 0, 0, 0, 0]"
    by (simp_all add: report_eq reportRow_def Let_def seedOctober_explicit getUsers_def
        getAssignments_def demoUsers_def demoAssignments_def)
  from report_inputs [OF u a, of "''2026-10''"] l
  have e: "report ''2026-10'' seedOctober = report ''2026-10'' s2"
    and p: "map pointsGiven (report ''2026-10'' seedOctober) =
              map (\<lambda>u. case getUserAllocation (uid u) ''2026-10'' seedOctober of
                         Some a \<Rightarrow> 10 - pointsRemaining a | None \<Rightarrow> 0) (getUsers seedOctober)"
    by blast+
  from p g have p': "map pointsGiven (report ''2026-10'' seedOctober) = [0, 2, 3, 0, 2, 4, 0, 0, 0]"
    by (rule trans)
  from u a d e p' r show ?thesis unfolding s2_def by (intro conjI)
qed

section \<open>A transfer when an allocation record is missing\<close>

text \<open>
  C10. Once \<open>handleSubmit\<close> is past its guard (a selected user and a category), the
  assignment is appended first and whatever the allocations hold. A party without an
  allocation record for the month still has none afterwards; with both missing the store
  is the old store with the assignment appended and nothing else; with one missing, only
  the other party's update is applied on top of the appended assignment. The sender's
  decrement and the receiver's increment happen when, and only on, the record that
  exists.
\<close>

theorem handleSubmit_missing_allocation:
  assumes sel: "selectedUser d = Some su" and cat: "category_st d \<noteq> []"
  shows "(let s' = snd (handleSubmit cu m newId now d s);
              x = submitted cu m newId now d su in
     getAssignments s' = getAssignments s @ [x] \<and>
     (getUserAllocation (uid cu) m s = None \<longrightarrow> getUserAllocation (uid cu) m s' = None) \<and>
     (getUserAllocation (uid su) m s = None \<longrightarrow> getUserAllocation (uid su) m s' = None) \<and>
     (getUserAllocation (uid cu) m s = None \<and> getUserAllocation (uid su) m s = None \<longrightarrow>
        s' = addAssignment x s) \<and>
     (\<forall>b. getUserAllocation (uid cu) m s = None \<and> getUserAllocation (uid su) m s = Some b \<longrightarrow>
        s' = updateAllocation (b\<lparr>pointsReceived := pointsReceived b + points_st d\<rparr>)
               (addAssignment x s)) \<and>
     (\<forall>a. getUserAllocation (uid cu) m s = Some a \<and> getUserAllocation (uid su) m s = None \<longrightarrow>
        s' = updateAllocation (a\<lparr>pointsRemaining := pointsRemaining a - points_st d\<rparr>)
               (addAssignment x s)) \<and>
     (\<forall>a. getUserAllocation (uid cu) m s = Some a \<longrightarrow>
        pointsRemainingOf s' (uid cu) m = Some (pointsRemaining a - points_st d)) \<and>
     (\<forall>b. getUserAllocation (uid su) m s = Some b \<longrightarrow>
        pointsReceivedOf s' (uid su) m = Some (pointsReceived b + points_st d)))"
proof -
  let ?s' = "snd (handleSubmit cu m newId now d s)"
  let ?x = "submitted cu m newId now d su"
  have asg: "getAssignments ?s' = getAssignments s @ [?x]"
    using sel cat by (simp add: getAssignments_def handleSubmit_fields)
  have noA: "getUserAllocation (uid cu) m ?s' = None" if "getUserAllocation (uid cu) m s = None"
    using that by (auto simp: handleSubmit_lookup [OF sel cat])
  have noB: "getUserAllocation (uid su) m ?s' = None" if "getUserAllocation (uid su) m s = None"
    using that by (auto simp: handleSubmit_lookup [OF sel cat])
  have none: "?s' = addAssignment ?x s"
    if "getUserAllocation (uid cu) m s = None \<and> getUserAllocation (uid su) m s = None"
    using that by (simp add: handleSubmit_store [OF sel cat] Let_def)
  have onlyB: "?s' = updateAllocation (b\<lparr>pointsReceived := pointsReceived b + points_st d\<rparr>)
                       (addAssignment ?x s)"
    if "getUserAllocation (uid cu) m s = None \<and> getUserAllocation (uid su) m s = Some b" for b
    using that by (simp add: handleSubmit_store [OF sel cat] Let_def)
  have onlyA: "?s' = updateAllocation (a\<lparr>pointsRemaining := pointsRemaining a - points_st d\<rparr>)
                       (addAssignment ?x s)"
    if h: "getUserAllocation (uid cu) m s = Some a \<and> getUserAllocation (uid su) m s = None" for a
  proof -
    from h have ne: "uid su \<noteq> uid cu" by auto
    from h getUserAllocation_key [of "uid cu" m s a]
    have k: "userId a = uid cu" "month a = m" by simp_all
    from h ne k show ?thesis
      by (simp add: handleSubmit_store [OF sel cat] Let_def lookup_updateAllocation)
  qed
  have rem: "pointsRemainingOf ?s' (uid cu) m = Some (pointsRemaining a - points_st d)"
    if "getUserAllocation (uid cu) m s = Some a" for a
    using that by (auto simp: pointsRemainingOf_def handleSubmit_lookup [OF sel cat])
  have rec: "pointsReceivedOf ?s' (uid su) m = Some (pointsReceived b + points_st d)"
    if "getUserAllocation (uid su) m s = Some b" for b
    using that by (auto simp: pointsReceivedOf_def handleSubmit_lookup [OF sel cat])
  show ?thesis
    unfolding Let_def using asg noA noB none onlyB onlyA rem rec by blast
qed

theorem handleSubmit_missing_allocation_witness:
  "selectedUser exampleForm = Some maria \<and> category_st exampleForm \<noteq> [] \<and>
   getUserAllocation (uid juan) ''2026-12'' exampleStore = None \<and>
   getUserAllocation (uid maria) ''2026-12'' exampleStore = None \<and>
   snd (handleSubmit juan ''2026-12'' ''t1'' 1000 exampleForm exampleStore) =
     addAssignment (submitted juan ''2026-12'' ''t1'' 1000 exampleForm maria) exampleStore \<and>
   getAssignments (snd (handleSubmit juan ''2026-12'' ''t1'' 1000 exampleForm exampleStore)) =
     [submitted juan ''2026-12'' ''t1'' 1000 exampleForm maria] \<and>
   getAllocations (snd (handleSubmit juan ''2026-12'' ''t1'' 1000 exampleForm exampleStore)) =
     getAllocations exampleStore \<and>
   getUserAllocation (uid juan) ''2026-11'' juanOnlyStore =
     Some \<lparr>userId = ''2'', month = ''2026-11'', pointsRemaining = 10, pointsReceived = 0\<rparr> \<and>
   getUserAllocation (uid maria) ''2026-11'' juanOnlyStore = None \<and>
   getAssignments (snd (handleSubmit juan ''2026-11'' ''t1'' 1000 exampleForm juanOnlyStore)) =
     [submitted juan ''2026-11'' ''t1'' 1000 exampleForm maria] \<and>
   pointsRemainingOf (snd (handleSubmit juan ''2026-11'' ''t1'' 1000 exampleForm juanOnlyStore))
     (uid juan) ''2026-11'' = Some 7 \<and>
   getUserAllocation (uid maria) ''2026-11''
     (snd (handleSubmit juan ''2026-11'' ''t1'' 1000 exampleForm juanOnlyStore)) = None"
proof -
  have u: "selectedUser exampleForm = Some maria"
    by (simp add: exampleForm_def initialDialog_def)
  have c: "category_st exampleForm \<noteq> []"
    by (simp add: exampleForm_def initialDialog_def)
  have a: "getUserAllocation (uid juan) ''2026-12'' exampleStore = None"
    by (simp add: getUserAllocation_def getAllocations_def exampleStore_def emptyStore_def juan_def)
  have b: "getUserAllocation (uid maria) ''2026-12'' exampleStore = None"
    by (simp add: getUserAllocation_def getAllocations_def exampleStore_def emptyStore_def maria_def)
  have g: "ASSIGNMENTS exampleStore = []"
    by (simp add: exampleStore_def emptyStore_def)
  have a': "getUserAllocation (uid juan) ''2026-11'' juanOnlyStore =
     Some \<lparr>userId = ''2'', month = ''2026-11'', pointsRemaining = 10, pointsReceived = 0\<rparr>"
    by (simp add: getUserAllocation_def getAllocations_def juanOnlyStore_def emptyStore_def juan_def)
  have b': "getUserAllocation (uid maria) ''2026-11'' juanOnlyStore = None"
    by (simp add: getUserAllocation_def getAllocations_def juanOnlyStore_def emptyStore_def maria_def)
  have ids: "uid juan = ''2''" "uid maria = ''1''"
    by (simp_all add: juan_def maria_def)
  have g': "ASSIGNMENTS juanOnlyStore = []" "points_st exampleForm = 3"
      "pointsRemainingOf (updateAllocation
         \<lparr>userId = ''2'', month = ''2026-11'', pointsRemaining = 7, pointsReceived = 0\<rparr>
         (addAssignment (submitted juan ''2026-11'' ''t1'' 1000 exampleForm maria) juanOnlyStore))
         (uid juan) ''2026-11'' = Some 7"
    by (simp_all add: juanOnlyStore_def emptyStore_def exampleForm_def initialDialog_def
        pointsRemainingOf_def lookup_updateAllocation juan_def)
  from handleSubmit_missing_allocation [OF u c, of juan "''2026-12''" "''t1''" 1000 exampleStore]
    handleSubmit_missing_allocation [OF u c, of juan "''2026-11''" "''t1''" 1000 juanOnlyStore]
    u c a b g a' b' g' show ?thesis
    by (simp add: Let_def getAllocations_def getAssignments_def lookup_updateAllocation ids)
qed

end
